theory Spec2Isabelle
  imports Complex_Main "HOL-Library.Word" "HOL-Library.Log_Nat"
begin

section \<open>Request headers, status values and the object store\<close>

text \<open>
  An \<open>Envoy::Http::HeaderMap\<close> is an ordered sequence of entries, and the same name may
  occur more than once. \<open>headers.get(name)\<close> yields every entry stored under \<open>name\<close>, in
  order; the code only asks for the number of entries and for the value of entry \<open>0\<close>.
\<close>

type_synonym header_map = "(string \<times> string) list"

definition HeaderMap_get :: "header_map \<Rightarrow> string \<Rightarrow> string list" where
  "HeaderMap_get headers name = map snd (filter (\<lambda>entry. fst entry = name) headers)"

text \<open>
  \<open>well_known_headers.h\<close> is not among the sources: the registry of header names
  \<open>TestServer::HeaderNames::get()\<close> is a parameter of every function that reads it.
\<close>

record HeaderNames =
  TestServerConfig :: string

text \<open>
  \<open>absl::StatusOr<EffectiveFilterConfigurationPtr>\<close>: the only status the code ever
  constructs is \<open>InvalidArgumentError\<close>; the success value is a shared pointer.
\<close>

datatype Status = InvalidArgumentError string

fun message :: "Status \<Rightarrow> string" where
  "message (InvalidArgumentError m) = m"

type_synonym addr = nat

type_synonym StatusOr = "Status + addr"

text \<open>
  Configuration objects live in a store; a \<open>std::shared_ptr\<close> is an index into it.
  \<open>std::make_shared\<close> allocates a fresh cell at the end of the store and never touches
  an existing one.
\<close>

definition make_shared :: "'cfg \<Rightarrow> 'cfg list \<Rightarrow> addr \<times> 'cfg list" where
  "make_shared v \<sigma> = (length \<sigma>, \<sigma> @ [v])"

section \<open>FilterConfigurationBase\<close>

text \<open>
  A member \<open>name_\<close> of a C++ class is the field \<open>m_name\<close> of its record (an identifier
  cannot end in an underscore): \<open>filter_name_\<close> is \<open>m_filter_name\<close>, \<open>server_config_\<close> is
  \<open>m_server_config\<close>, and so on.
\<close>

record FilterConfigurationBase =
  m_filter_name :: string
  m_server_config :: addr

text \<open>The constructor stores the filter name and a shared copy of the given configuration.\<close>

definition FilterConfigurationBase_new ::
  "'cfg \<Rightarrow> string \<Rightarrow> 'cfg list \<Rightarrow> FilterConfigurationBase \<times> 'cfg list" where
  "FilterConfigurationBase_new proto_config filter_name \<sigma> =
     (let (p, \<sigma>') = make_shared proto_config \<sigma>
      in (\<lparr>m_filter_name = filter_name, m_server_config = p\<rparr>, \<sigma>'))"

text \<open>
  \<open>Configuration::mergeJsonConfig(json, config, error_message)\<close> is declared outside the
  given sources. It receives the configuration and the error message by reference and
  returns a flag; as a parameter it is a function from the JSON text and the configuration
  passed in to the flag, the configuration left behind and the error message left behind.

  \<open>computeEffectiveConfiguration\<close> follows the source branch by branch. The local
  \<open>response_options\<close> is copy-constructed from \<open>*server_config_\<close>; the merge works on
  that local value, and the object \<open>server_config_\<close> points to is not written.
\<close>

definition computeEffectiveConfiguration ::
  "HeaderNames \<Rightarrow> (string \<Rightarrow> 'cfg \<Rightarrow> bool \<times> 'cfg \<times> string) \<Rightarrow> FilterConfigurationBase
     \<Rightarrow> header_map \<Rightarrow> 'cfg list \<Rightarrow> StatusOr \<times> 'cfg list" where
  "computeEffectiveConfiguration names mergeJsonConfig this headers \<sigma> =
     (let request_config_header = HeaderMap_get headers (TestServerConfig names) in
      if length request_config_header = 1 then
        (let response_options = \<sigma> ! m_server_config this;
             (merged, response_options', error_message) =
                mergeJsonConfig (request_config_header ! 0) response_options
         in if merged then (let (p, \<sigma>') = make_shared response_options' \<sigma> in (Inr p, \<sigma>'))
            else (Inl (InvalidArgumentError error_message), \<sigma>))
      else if length request_config_header > 1 then
        (Inl (InvalidArgumentError
           ''Received multiple configuration headers in the request, expected only one.''), \<sigma>)
      else (Inr (m_server_config this), \<sigma>))"

text \<open>
  The configuration object \<open>this\<close> holds the base configuration \<open>B\<close> in a store when its
  pointer \<open>server_config_\<close> is allocated there and points to \<open>B\<close>. The constructor
  establishes this.
\<close>

definition holds_base :: "'cfg list \<Rightarrow> FilterConfigurationBase \<Rightarrow> 'cfg \<Rightarrow> bool" where
  "holds_base \<sigma> this B \<longleftrightarrow> m_server_config this < length \<sigma> \<and> \<sigma> ! m_server_config this = B"

text \<open>The configuration a result denotes: the pointer it carries, read in the store it left.\<close>

definition effective_value :: "StatusOr \<times> 'cfg list \<Rightarrow> Status + 'cfg" where
  "effective_value r = (case fst r of Inl e \<Rightarrow> Inl e | Inr p \<Rightarrow> Inr (snd r ! p))"

text \<open>A sequence of requests served by one configuration object, one call after the other.\<close>

fun serve ::
  "HeaderNames \<Rightarrow> (string \<Rightarrow> 'cfg \<Rightarrow> bool \<times> 'cfg \<times> string) \<Rightarrow> FilterConfigurationBase
     \<Rightarrow> header_map list \<Rightarrow> 'cfg list \<Rightarrow> 'cfg list" where
  "serve names mergeJsonConfig this [] \<sigma> = \<sigma>"
| "serve names mergeJsonConfig this (headers # rest) \<sigma> =
     serve names mergeJsonConfig this rest
       (snd (computeEffectiveConfiguration names mergeJsonConfig this headers \<sigma>))"

text \<open>
  For the merge of the specification a configuration is the finite map from its field
  paths (the names from the root of the message down to a leaf field) to their values; an
  override fragment is such a map too.
\<close>

type_synonym field = "string list"

type_synonym 'v fields = "field \<rightharpoonup> 'v"

text \<open>
  Modelled from the spec: \<open>Configuration::mergeJsonConfig\<close> is not among the sources.
  The spec has the override value parsed as a JSON-encoded partial configuration and
  deep-merged onto the configuration: fields present in the override replace the
  corresponding fields, fields it does not mention keep their values; a failure of the
  parse or of the merge yields a message. The JSON reader (with the validation against the
  schema) is the parameter \<open>parse\<close>, which yields either a message or the fragment.
\<close>

definition mergeJsonConfig_spec ::
  "(string \<Rightarrow> string + 'v fields) \<Rightarrow> string \<Rightarrow> 'v fields \<Rightarrow> bool \<times> 'v fields \<times> string" where
  "mergeJsonConfig_spec parse json config =
     (case parse json of
        Inl error_message \<Rightarrow> (False, config, error_message)
      | Inr fragment \<Rightarrow> (True, config ++ fragment, ''''))"

section \<open>Error replies\<close>

text \<open>
  The decoder callbacks are an object of the surrounding server. What the code does to
  them is \<open>sendLocalReply(code, body, ...)\<close>; their state is the list of local replies
  sent so far, oldest first.
\<close>

record LocalReply =
  reply_code :: nat
  reply_body :: string

definition sendLocalReply :: "nat \<Rightarrow> string \<Rightarrow> LocalReply list \<Rightarrow> LocalReply list" where
  "sendLocalReply c b decoder_callbacks = decoder_callbacks @ [\<lparr>reply_code = c, reply_body = b\<rparr>]"

definition validateOrSendError ::
  "FilterConfigurationBase \<Rightarrow> StatusOr \<Rightarrow> LocalReply list \<Rightarrow> bool \<times> LocalReply list" where
  "validateOrSendError this effective_config decoder_callbacks =
     (case effective_config of
        Inl status \<Rightarrow>
          (True, sendLocalReply 500
                   (m_filter_name this @ '' didn't understand the request: '' @ message status)
                   decoder_callbacks)
      | Inr p \<Rightarrow> (False, decoder_callbacks))"

section \<open>HttpTimeTrackingFilter\<close>

datatype FilterHeadersStatus = Continue | StopIteration

datatype FilterDataStatus = Continue | StopIterationNoBuffer

text \<open>
  \<open>api/server/response_options.proto\<close> is not among the sources. The one field of
  \<open>ResponseOptions\<close> the code reads is the string
  \<open>emit_previous_request_delta_in_response_header\<close>; every other field stays in the
  extension part of the record.
\<close>

record ResponseOptions =
  emit_previous_request_delta_in_response_header :: string

text \<open>
  The configuration object of the time tracking filter is a \<open>FilterConfigurationBase\<close>
  named \<open>time-tracking\<close> (its stopwatch is not read by the functions below).
\<close>

definition HttpTimeTrackingFilterConfig_new ::
  "'cfg \<Rightarrow> 'cfg list \<Rightarrow> FilterConfigurationBase \<times> 'cfg list" where
  "HttpTimeTrackingFilterConfig_new experimental_response_options \<sigma> =
     FilterConfigurationBase_new experimental_response_options ''time-tracking'' \<sigma>"

record HttpTimeTrackingFilter =
  m_config :: FilterConfigurationBase
  m_effective_config :: StatusOr
  m_last_request_delta_ns :: "64 word"

definition decodeHeaders ::
  "HeaderNames \<Rightarrow> (string \<Rightarrow> 'cfg \<Rightarrow> bool \<times> 'cfg \<times> string) \<Rightarrow> HttpTimeTrackingFilter
     \<Rightarrow> header_map \<Rightarrow> bool \<Rightarrow> 'cfg list \<Rightarrow> LocalReply list
     \<Rightarrow> FilterHeadersStatus \<times> HttpTimeTrackingFilter \<times> 'cfg list \<times> LocalReply list" where
  "decodeHeaders names mergeJsonConfig this headers end_stream \<sigma> decoder_callbacks =
     (let (effective_config, \<sigma>') =
            computeEffectiveConfiguration names mergeJsonConfig (m_config this) headers \<sigma>;
          this' = this\<lparr>m_effective_config := effective_config\<rparr>
      in if end_stream then
           (let (sent, decoder_callbacks') =
                  validateOrSendError (m_config this') (m_effective_config this') decoder_callbacks
            in if sent then (FilterHeadersStatus.StopIteration, this', \<sigma>', decoder_callbacks')
               else (FilterHeadersStatus.Continue, this', \<sigma>', decoder_callbacks'))
         else (FilterHeadersStatus.Continue, this', \<sigma>', decoder_callbacks))"

definition decodeData ::
  "HttpTimeTrackingFilter \<Rightarrow> bool \<Rightarrow> LocalReply list \<Rightarrow> FilterDataStatus \<times> LocalReply list" where
  "decodeData this end_stream decoder_callbacks =
     (if end_stream then
        (let (sent, decoder_callbacks') =
               validateOrSendError (m_config this) (m_effective_config this) decoder_callbacks
         in if sent then (FilterDataStatus.StopIterationNoBuffer, decoder_callbacks')
            else (FilterDataStatus.Continue, decoder_callbacks'))
      else (FilterDataStatus.Continue, decoder_callbacks))"

text \<open>
  The body of a request reaches the filter as a sequence of \<open>decodeData\<close> calls, each
  with its \<open>end_stream\<close> flag; calls go on for as long as the filter answers
  \<open>Continue\<close>. The result lists, call by call, the status returned and the replies
  sent up to then.
\<close>

fun decodeDataFrames ::
  "HttpTimeTrackingFilter \<Rightarrow> bool list \<Rightarrow> LocalReply list
     \<Rightarrow> (FilterDataStatus \<times> LocalReply list) list" where
  "decodeDataFrames this [] decoder_callbacks = []"
| "decodeDataFrames this (end_stream # frames) decoder_callbacks =
     (let (status, decoder_callbacks') = decodeData this end_stream decoder_callbacks
      in (status, decoder_callbacks') #
         (if status = FilterDataStatus.Continue
          then decodeDataFrames this frames decoder_callbacks' else []))"

text \<open>
  A whole request as the filter sees it: \<open>decodeHeaders\<close>, and then, unless the headers
  ended the stream or the filter stopped the iteration, the \<open>decodeData\<close> calls of the
  body. The result is the list of replies sent when the calls are over.
\<close>

definition replies_after ::
  "('s \<times> LocalReply list) list \<Rightarrow> LocalReply list \<Rightarrow> LocalReply list" where
  "replies_after trace decoder_callbacks =
     (if trace = [] then decoder_callbacks else snd (last trace))"

definition decodeRequest ::
  "HeaderNames \<Rightarrow> (string \<Rightarrow> 'cfg \<Rightarrow> bool \<times> 'cfg \<times> string) \<Rightarrow> HttpTimeTrackingFilter
     \<Rightarrow> header_map \<Rightarrow> bool \<Rightarrow> bool list \<Rightarrow> 'cfg list \<Rightarrow> LocalReply list \<Rightarrow> LocalReply list" where
  "decodeRequest names mergeJsonConfig this headers end_stream frames \<sigma> decoder_callbacks =
     (let (status, this', \<sigma>', decoder_callbacks') =
            decodeHeaders names mergeJsonConfig this headers end_stream \<sigma> decoder_callbacks
      in if end_stream \<or> status \<noteq> FilterHeadersStatus.Continue then decoder_callbacks'
         else replies_after (decodeDataFrames this' frames decoder_callbacks') decoder_callbacks')"

text \<open>
  \<open>Envoy::Http::LowerCaseString\<close> lowers the ASCII capitals of a header name;
  \<open>absl::StrCat\<close> of an unsigned integer is its decimal text without leading zeros.
\<close>

definition tolower :: "char \<Rightarrow> char" where
  "tolower c =
     (if 65 \<le> (of_char c :: nat) \<and> (of_char c :: nat) \<le> 90
      then (case c of Char b0 b1 b2 b3 b4 b5 b6 b7 \<Rightarrow> Char b0 b1 b2 b3 b4 True b6 b7)
      else c)"

definition LowerCaseString :: "string \<Rightarrow> string" where
  "LowerCaseString name = map tolower name"

fun StrCat :: "nat \<Rightarrow> string" where
  "StrCat n =
     (if n < 10 then [''0123456789'' ! n]
      else StrCat (n div 10) @ [''0123456789'' ! (n mod 10)])"

declare StrCat.simps [simp del]

text \<open>
  Envoy's header map is not among the sources. By its documented contract
  \<open>appendCopy(key, value)\<close> appends data to a header: when the map has no entry named
  \<open>key\<close> it adds the entry \<open>(key, value)\<close> at the end; when it has one, no entry is added
  and the data is joined onto the value of the first such entry, after a separator if
  that value is not empty. The documented separator is \<open>,\<close>; it is the parameter
  \<open>delimiter\<close>, a function of the header name.
\<close>

definition appendToHeader :: "string \<Rightarrow> string \<Rightarrow> string \<Rightarrow> string" where
  "appendToHeader header data separator =
     (if data = [] then header
      else if header \<noteq> [] then header @ separator @ data
      else data)"

fun appendToFirst :: "string \<Rightarrow> string \<Rightarrow> string \<Rightarrow> header_map \<Rightarrow> header_map" where
  "appendToFirst key data separator [] = []"
| "appendToFirst key data separator (entry # rest) =
     (if fst entry = key then (key, appendToHeader (snd entry) data separator) # rest
      else entry # appendToFirst key data separator rest)"

definition appendCopy ::
  "(string \<Rightarrow> string) \<Rightarrow> string \<Rightarrow> string \<Rightarrow> header_map \<Rightarrow> header_map" where
  "appendCopy delimiter key v headers =
     (if HeaderMap_get headers key \<noteq> [] then appendToFirst key v (delimiter key) headers
      else headers @ [(key, v)])"

definition encodeHeaders ::
  "(string \<Rightarrow> string) \<Rightarrow> HttpTimeTrackingFilter \<Rightarrow> 'a ResponseOptions_scheme list \<Rightarrow> header_map
     \<Rightarrow> FilterHeadersStatus \<times> header_map" where
  "encodeHeaders delimiter this \<sigma> response_headers =
     (case m_effective_config this of
        Inr p \<Rightarrow>
          (let previous_request_delta_in_response_header =
                 emit_previous_request_delta_in_response_header (\<sigma> ! p)
           in if previous_request_delta_in_response_header \<noteq> [] \<and> 0 < m_last_request_delta_ns this
              then (FilterHeadersStatus.Continue,
                    appendCopy delimiter (LowerCaseString previous_request_delta_in_response_header)
                      (StrCat (unat (m_last_request_delta_ns this))) response_headers)
              else (FilterHeadersStatus.Continue, response_headers))
      | Inl status \<Rightarrow> (FilterHeadersStatus.Continue, response_headers))"

text \<open>Decimal digits, and the number a decimal text denotes, to read a rendered value back.\<close>

definition is_digit :: "char \<Rightarrow> bool" where
  "is_digit c \<longleftrightarrow> c \<in> set ''0123456789''"

definition digit_value :: "char \<Rightarrow> nat" where
  "digit_value c = of_char c - 48"

definition decimal_value :: "string \<Rightarrow> nat" where
  "decimal_value s = foldl (\<lambda>acc c. 10 * acc + digit_value c) 0 s"

section \<open>HttpDynamicDelayDecoderFilterConfig: the count of active filter instances\<close>

text \<open>
  The configuration class extends \<open>FilterConfigurationBase\<close> (its references to the
  runtime, the statistics scope and the time source play no part below).
\<close>

record HttpDynamicDelayDecoderFilterConfig = FilterConfigurationBase +
  m_stats_prefix :: string

text \<open>
  \<open>instances()\<close> is a static member function holding a function-local static
  \<open>std::atomic<uint64_t>\<close>, constructed with value 0 on first use. The static is part of
  the state of the process, not of any configuration object: \<open>None\<close> before the first
  use, \<open>Some v\<close> afterwards. \<open>instances\<close> yields the state with the static constructed
  and its current value.
\<close>

type_synonym statics = "64 word option"

definition instances :: "statics \<Rightarrow> 64 word \<times> statics" where
  "instances s = (case s of None \<Rightarrow> (0, Some 0) | Some v \<Rightarrow> (v, Some v))"

text \<open>
  \<open>instances()++\<close> and \<open>instances()--\<close> are single atomic read-modify-write operations
  on the 64-bit unsigned value, so each is one step on the state.
\<close>

definition incrementFilterInstanceCount ::
  "HttpDynamicDelayDecoderFilterConfig \<Rightarrow> statics \<Rightarrow> statics" where
  "incrementFilterInstanceCount this s = (let (v, s') = instances s in Some (v + 1))"

definition decrementFilterInstanceCount ::
  "HttpDynamicDelayDecoderFilterConfig \<Rightarrow> statics \<Rightarrow> statics" where
  "decrementFilterInstanceCount this s = (let (v, s') = instances s in Some (v - 1))"

definition approximateFilterInstances ::
  "HttpDynamicDelayDecoderFilterConfig \<Rightarrow> statics \<Rightarrow> 64 word \<times> statics" where
  "approximateFilterInstances this s = instances s"

text \<open>
  An execution in which several threads increment and decrement is, the operations
  being atomic, a sequence of these steps in some order; each step names the
  configuration object it is called on.
\<close>

datatype instance_op = Increment | Decrement

fun run_ops ::
  "(HttpDynamicDelayDecoderFilterConfig \<times> instance_op) list \<Rightarrow> statics \<Rightarrow> statics" where
  "run_ops [] s = s"
| "run_ops ((this, Increment) # ops) s = run_ops ops (incrementFilterInstanceCount this s)"
| "run_ops ((this, Decrement) # ops) s = run_ops ops (decrementFilterInstanceCount this s)"

text \<open>
  The steps of one atomic counter that a sequence of operations contains.
\<close>

definition increments :: "(HttpDynamicDelayDecoderFilterConfig \<times> instance_op) list \<Rightarrow> nat" where
  "increments ops = length (filter (\<lambda>step. snd step = Increment) ops)"

definition decrements :: "(HttpDynamicDelayDecoderFilterConfig \<times> instance_op) list \<Rightarrow> nat" where
  "decrements ops = length (filter (\<lambda>step. snd step = Decrement) ops)"

section \<open>HttpDynamicDelayDecoderFilter: the linear delay\<close>

subsection \<open>Double precision arithmetic\<close>

text \<open>
  \<open>computeConcurrencyBasedLinearDelayMs\<close> divides a 64-bit integer by the \<open>double\<close>
  literal \<open>1e6\<close> and hands the quotient to \<open>std::round\<close>; the arithmetic is that of
  IEEE 754 binary64. A finite double is the real number it denotes. Converting an integer
  and dividing both deliver the exact result rounded to 53 significant bits, to nearest,
  ties to the even significand. For a dividend in the range of \<open>int64_t\<close> every value
  that arises is zero or of a magnitude between \<open>1 / 10 ^ 6\<close> and \<open>2 ^ 63\<close>, far inside
  the range of normal doubles: neither overflow nor gradual underflow occurs, and the
  exponent needs no bound.

  \<open>ilog2 x\<close> is the exponent of \<open>x > 0\<close>: the integer \<open>k\<close> with \<open>2 ^ k \<le> x < 2 ^ (k + 1)\<close>.
\<close>

definition ilog2 :: "real \<Rightarrow> int" where
  "ilog2 x = (if 1 \<le> x then bitlen \<lfloor>x\<rfloor> - 1 else - bitlen (\<lceil>1 / x\<rceil> - 1))"

definition round_half_even :: "real \<Rightarrow> int" where
  "round_half_even x =
     (let f = \<lfloor>x\<rfloor>; r = x - of_int f
      in if r < 1 / 2 then f else if 1 / 2 < r then f + 1 else if even f then f else f + 1)"

definition round_to_double :: "real \<Rightarrow> real" where
  "round_to_double x =
     (if x = 0 then 0
      else (let e = ilog2 \<bar>x\<bar> - 52
            in sgn x * of_int (round_half_even (\<bar>x\<bar> / 2 powi e)) * 2 powi e))"

text \<open>The implicit conversion of the \<open>int64_t\<close> operand of \<open>/\<close> to \<open>double\<close>.\<close>

definition double_of_int64 :: "int \<Rightarrow> real" where
  "double_of_int64 n = round_to_double (of_int n)"

definition double_div :: "real \<Rightarrow> real \<Rightarrow> real" where
  "double_div x y = round_to_double (x / y)"

text \<open>
  \<open>std::round\<close> yields the nearest integral double, halfway cases away from zero; the
  result of rounding a double to an integer is a double again, so this step is exact.
\<close>

definition std_round :: "real \<Rightarrow> real" where
  "std_round x = (if 0 \<le> x then of_int \<lfloor>x + 1 / 2\<rfloor> else - of_int \<lfloor>- x + 1 / 2\<rfloor>)"

text \<open>The conversion of the returned double to \<open>int64_t\<close> truncates towards zero.\<close>

definition int64_of_double :: "real \<Rightarrow> int" where
  "int64_of_double x = (if 0 \<le> x then \<lfloor>x\<rfloor> else - \<lfloor>- x\<rfloor>)"

subsection \<open>Durations\<close>

text \<open>
  Modelled from the spec: the protobuf \<open>Duration\<close> type is not among the sources. The
  spec has the sum \<open>minimal_delay + concurrency * delay_factor\<close> computed in nanosecond
  precision: a duration is its signed count of nanoseconds, and the sum of two durations
  is the sum of their counts.
\<close>

type_synonym Duration = int

text \<open>
  Modelled from the spec: the operator \<open>*\<close> of an integer and a \<open>Duration\<close> is not among
  the sources. In nanosecond precision it is the exact product of the unsigned concurrency
  and the count.
\<close>

definition Duration_times :: "64 word \<Rightarrow> Duration \<Rightarrow> Duration" where
  "Duration_times concurrency d = uint concurrency * d"

text \<open>
  Modelled from the spec: \<open>TimeUtil::DurationToNanoseconds\<close> is not among the sources. It
  yields the count of nanoseconds of the duration.
\<close>

definition DurationToNanoseconds :: "Duration \<Rightarrow> int" where
  "DurationToNanoseconds d = d"

text \<open>
  Modelled from the spec: \<open>TimeUtil::MillisecondsToDuration\<close> is not among the sources;
  it is used for example values only. A millisecond is \<open>10 ^ 6\<close> nanoseconds.
\<close>

definition MillisecondsToDuration :: "int \<Rightarrow> Duration" where
  "MillisecondsToDuration millis = millis * 1000000"

subsection \<open>The delay\<close>

definition computeConcurrencyBasedLinearDelayMs :: "64 word \<Rightarrow> Duration \<Rightarrow> Duration \<Rightarrow> int" where
  "computeConcurrencyBasedLinearDelayMs concurrency minimal_delay delay_factor =
     int64_of_double (std_round (double_div
       (double_of_int64
          (DurationToNanoseconds (minimal_delay + Duration_times concurrency delay_factor)))
       1000000))"

text \<open>
  What the specification asks for, in its words: the exact value rounded to the nearest
  integer, ties half away from zero.
\<close>

definition round_half_away :: "real \<Rightarrow> int" where
  "round_half_away x = (if 0 \<le> x then \<lfloor>x + 1 / 2\<rfloor> else - \<lfloor>- x + 1 / 2\<rfloor>)"

section \<open>HttpDynamicDelayDecoderFilter: the request headers\<close>

text \<open>
  Modelled from the spec: the bodies of \<open>HttpDynamicDelayDecoderFilter::decodeHeaders\<close>,
  \<open>computeDelayMs\<close> and \<open>maybeRequestFaultFilterDelay\<close> are not among the sources, only
  their declarations are. In the words of the specification (4.5, 7): on request-header
  receipt the orchestrator resolves the effective configuration; on success it computes
  the delay from the configuration and the concurrency read from the tracker and hands
  it to the delay-enactment collaborator, with no interaction when the instruction
  carries no delay (absent or not greater than zero); on failure the request is errored,
  the delay computation is skipped entirely (an error never reaches the delay calculator
  or the collaborator), and the 500 response is emitted, deferred until the stream is
  known to be complete. The delay calculator \<open>computeDelayMs\<close> is a parameter, from the
  response options and the concurrency to an optional number of milliseconds, as
  declared. The collaborator's state is the list of delays requested so far, in
  milliseconds, oldest first.
\<close>

datatype request_state = DelayComputed "int option" | Errored Status

definition maybeRequestFaultFilterDelay :: "int option \<Rightarrow> int list \<Rightarrow> int list" where
  "maybeRequestFaultFilterDelay delay_ms delay_instructions =
     (case delay_ms of
        Some d \<Rightarrow> if 0 < d then delay_instructions @ [d] else delay_instructions
      | None \<Rightarrow> delay_instructions)"

definition HttpDynamicDelayDecoderFilter_decodeHeaders ::
  "HeaderNames \<Rightarrow> (string \<Rightarrow> 'cfg \<Rightarrow> bool \<times> 'cfg \<times> string) \<Rightarrow> ('cfg \<Rightarrow> 64 word \<Rightarrow> int option)
     \<Rightarrow> HttpDynamicDelayDecoderFilterConfig \<Rightarrow> header_map \<Rightarrow> bool \<Rightarrow> 'cfg list \<Rightarrow> statics
     \<Rightarrow> LocalReply list \<Rightarrow> int list
     \<Rightarrow> request_state \<times> 'cfg list \<times> statics \<times> LocalReply list \<times> int list" where
  "HttpDynamicDelayDecoderFilter_decodeHeaders names mergeJsonConfig computeDelayMs config headers
       end_stream \<sigma> s decoder_callbacks delay_instructions =
     (let (effective_config, \<sigma>') =
            computeEffectiveConfiguration names mergeJsonConfig
              (FilterConfigurationBase.truncate config) headers \<sigma>
      in case effective_config of
           Inr p \<Rightarrow>
             (let (concurrency, s') = approximateFilterInstances config s;
                  delay_ms = computeDelayMs (\<sigma>' ! p) concurrency
              in (DelayComputed delay_ms, \<sigma>', s', decoder_callbacks,
                  maybeRequestFaultFilterDelay delay_ms delay_instructions))
         | Inl status \<Rightarrow>
             (Errored status, \<sigma>', s,
              (if end_stream
               then snd (validateOrSendError (FilterConfigurationBase.truncate config)
                           effective_config decoder_callbacks)
               else decoder_callbacks),
              delay_instructions))"

section \<open>The error response of the specification\<close>

text \<open>
  In the words of the specification: HTTP status 500 and the body
  \<open><filter-name> didn't understand the request: <error message>\<close>.
\<close>

definition error_response :: "string \<Rightarrow> string \<Rightarrow> LocalReply" where
  "error_response filter_name error_message =
     \<lparr>reply_code = 500,
      reply_body = filter_name @ '' didn't understand the request: '' @ error_message\<rparr>"

section \<open>The configured response-gap header name\<close>

text \<open>
  The response-gap header name configured in the effective configuration of a request;
  empty when the resolution of the configuration failed.
\<close>

definition response_gap_header_name ::
  "HttpTimeTrackingFilter \<Rightarrow> 'a ResponseOptions_scheme list \<Rightarrow> string" where
  "response_gap_header_name this \<sigma> =
     (case m_effective_config this of
        Inr p \<Rightarrow> emit_previous_request_delta_in_response_header (\<sigma> ! p)
      | Inl status \<Rightarrow> [])"

section \<open>Example values\<close>

abbreviation example_names :: HeaderNames where
  "example_names \<equiv> \<lparr>TestServerConfig = ''x-nighthawk-test-server-config''\<rparr>"

abbreviation time_tracking_config :: FilterConfigurationBase where
  "time_tracking_config \<equiv> \<lparr>m_filter_name = ''time-tracking'', m_server_config = 0\<rparr>"

abbreviation fresh_filter :: HttpTimeTrackingFilter where
  "fresh_filter \<equiv>
     \<lparr>m_config = time_tracking_config, m_effective_config = Inr 0, m_last_request_delta_ns = 0\<rparr>"

abbreviation duplicate_headers :: header_map where
  "duplicate_headers \<equiv>
     [(''x-nighthawk-test-server-config'', ''{}''), (''accept'', ''*/*''),
      (''x-nighthawk-test-server-config'', ''{}'')]"

abbreviation replace_by_json :: "string \<Rightarrow> string \<Rightarrow> bool \<times> string \<times> string" where
  "replace_by_json \<equiv> \<lambda>json config. (True, json, '''')"

abbreviation comma :: "string \<Rightarrow> string" where
  "comma \<equiv> \<lambda>name. '',''"

abbreviation fixed_delay_250 :: "string \<Rightarrow> 64 word \<Rightarrow> int option" where
  "fixed_delay_250 \<equiv> \<lambda>response_options concurrency. Some 250"

abbreviation duplicate_message :: string where
  "duplicate_message \<equiv>
     ''Received multiple configuration headers in the request, expected only one.''"

abbreviation parse_example :: "string \<Rightarrow> string + nat fields" where
  "parse_example \<equiv> \<lambda>json.
     if json = ''{response_code: 429}'' then Inr [[''response_code''] \<mapsto> 429]
     else Inl ''Error merging json config''"

abbreviation base_fields :: "nat fields" where
  "base_fields \<equiv> [[''response_code''] \<mapsto> 200, [''static_delay'', ''seconds''] \<mapsto> 1]"

abbreviation delay_config_a :: HttpDynamicDelayDecoderFilterConfig where
  "delay_config_a \<equiv>
     \<lparr>m_filter_name = ''dynamic-delay'', m_server_config = 0, m_stats_prefix = ''a.''\<rparr>"

abbreviation delay_config_b :: HttpDynamicDelayDecoderFilterConfig where
  "delay_config_b \<equiv>
     \<lparr>m_filter_name = ''dynamic-delay'', m_server_config = 1, m_stats_prefix = ''b.''\<rparr>"

section \<open>Resolution of the effective configuration\<close>

lemma computeEffectiveConfiguration_store:
  "\<exists>extra. snd (computeEffectiveConfiguration names mergeJsonConfig this headers \<sigma>) = \<sigma> @ extra"
  by (simp add: computeEffectiveConfiguration_def make_shared_def Let_def split: prod.splits)

lemma computeEffectiveConfiguration_frame:
  assumes "holds_base \<sigma> this B"
  shows "holds_base (snd (computeEffectiveConfiguration names mergeJsonConfig this headers \<sigma>)) this B"
proof -
  obtain extra where
    "snd (computeEffectiveConfiguration names mergeJsonConfig this headers \<sigma>) = \<sigma> @ extra"
    using computeEffectiveConfiguration_store by blast
  with assms show ?thesis by (simp add: holds_base_def nth_append)
qed

lemma serve_frame:
  "holds_base \<sigma> this B \<Longrightarrow> holds_base (serve names mergeJsonConfig this reqs \<sigma>) this B"
proof (induction reqs arbitrary: \<sigma>)
  case Nil
  then show ?case by simp
next
  case (Cons headers rest)
  let ?\<sigma>1 = "snd (computeEffectiveConfiguration names mergeJsonConfig this headers \<sigma>)"
  from Cons.prems have "holds_base ?\<sigma>1 this B"
    by (rule computeEffectiveConfiguration_frame)
  with Cons.IH [of ?\<sigma>1] show ?case by simp
qed

lemma FilterConfigurationBase_new_holds:
  "FilterConfigurationBase_new proto_config filter_name \<sigma>0 = (this, \<sigma>) \<Longrightarrow>
   holds_base \<sigma> this proto_config"
  by (auto simp: FilterConfigurationBase_new_def make_shared_def holds_base_def)

lemma time_tracking_config_holds: "holds_base [B] time_tracking_config B"
  by (simp add: holds_base_def)

lemma duplicate_headers_resolution:
  "computeEffectiveConfiguration example_names mergeJsonConfig time_tracking_config
     duplicate_headers \<sigma> = (Inl (InvalidArgumentError duplicate_message), \<sigma>)"
  by (simp add: computeEffectiveConfiguration_def HeaderMap_get_def)

lemma no_headers_resolution:
  "computeEffectiveConfiguration example_names mergeJsonConfig time_tracking_config [] \<sigma>
     = (Inr 0, \<sigma>)"
  by (simp add: computeEffectiveConfiguration_def HeaderMap_get_def)

text \<open>
  C2: for every base configuration \<open>B\<close> held by the configuration object, when the
  request carries no value of the override header the call returns the pointer
  \<open>server_config_\<close> itself and leaves the store as it was (nothing is allocated, and the
  result is the same for every merge function: nothing is merged or validated); the
  configuration the result denotes is \<open>B\<close>, and the result is never an error.
\<close>

theorem no_override_returns_base:
  assumes "HeaderMap_get headers (TestServerConfig names) = []"
      and "holds_base \<sigma> this B"
  shows "computeEffectiveConfiguration names mergeJsonConfig this headers \<sigma>
           = (Inr (m_server_config this), \<sigma>)
       \<and> effective_value (computeEffectiveConfiguration names mergeJsonConfig this headers \<sigma>)
           = Inr B"
  using assms
  by (simp add: computeEffectiveConfiguration_def effective_value_def holds_base_def)

theorem no_override_returns_base_witness:
  "HeaderMap_get [(''accept'', ''*/*'')] (TestServerConfig example_names) = []
   \<and> holds_base [''base''] time_tracking_config ''base''
   \<and> computeEffectiveConfiguration example_names replace_by_json time_tracking_config
        [(''accept'', ''*/*'')] [''base''] = (Inr 0, [''base''])
   \<and> effective_value (computeEffectiveConfiguration example_names replace_by_json
        time_tracking_config [(''accept'', ''*/*'')] [''base'']) = Inr ''base''"
proof -
  have h: "HeaderMap_get [(''accept'', ''*/*'')] (TestServerConfig example_names) = []"
    by (simp add: HeaderMap_get_def)
  have b: "holds_base [''base''] time_tracking_config ''base''"
    by (rule time_tracking_config_holds)
  show ?thesis
    using h b no_override_returns_base [OF h b, of replace_by_json]
    by (simp add: effective_value_def)
qed

text \<open>
  What the code itself decides for a single value: the value and a copy of the base
  configuration go to the merge function; on success the configuration it leaves behind
  is moved into a fresh shared object, on failure its message becomes the error.
\<close>

lemma single_override_delegates:
  assumes "HeaderMap_get headers (TestServerConfig names) = [v]"
  shows "computeEffectiveConfiguration names mergeJsonConfig this headers \<sigma> =
           (case mergeJsonConfig v (\<sigma> ! m_server_config this) of
              (merged, response_options, error_message) \<Rightarrow>
                if merged then (Inr (length \<sigma>), \<sigma> @ [response_options])
                else (Inl (InvalidArgumentError error_message), \<sigma>))"
  using assms
  by (simp add: computeEffectiveConfiguration_def make_shared_def split: prod.splits)

text \<open>
  C3: for every base configuration \<open>B\<close> held by the configuration object, when the
  request carries exactly one value of the override header, that value goes to the merge
  function together with a copy of \<open>B\<close>. With the merge of the specification (the value
  is parsed as a partial configuration and merged field by field): if the value parses to
  a fragment, the result is a fresh configuration in which every field present in the
  fragment has the fragment's value and every other field has its value in \<open>B\<close>, and
  the configuration object still holds \<open>B\<close>; if parsing or merging fails, the result is
  the error that carries the failure message, and nothing is allocated.
\<close>

theorem single_override_merged:
  assumes "HeaderMap_get headers (TestServerConfig names) = [v]"
      and "holds_base \<sigma> this B"
  shows "(parse v = Inr fragment \<longrightarrow>
            computeEffectiveConfiguration names (mergeJsonConfig_spec parse) this headers \<sigma>
              = (Inr (length \<sigma>), \<sigma> @ [B ++ fragment])
          \<and> effective_value
                (computeEffectiveConfiguration names (mergeJsonConfig_spec parse) this headers \<sigma>)
              = Inr (B ++ fragment)
          \<and> (\<forall>f x. fragment f = Some x \<longrightarrow> (B ++ fragment) f = Some x)
          \<and> (\<forall>f. fragment f = None \<longrightarrow> (B ++ fragment) f = B f)
          \<and> holds_base (\<sigma> @ [B ++ fragment]) this B)
       \<and> (parse v = Inl error_message \<longrightarrow>
            computeEffectiveConfiguration names (mergeJsonConfig_spec parse) this headers \<sigma>
              = (Inl (InvalidArgumentError error_message), \<sigma>))"
  using single_override_delegates [OF assms(1), of "mergeJsonConfig_spec parse" this \<sigma>] assms(2)
  by (simp add: mergeJsonConfig_spec_def effective_value_def map_add_def holds_base_def
      nth_append)

theorem single_override_merged_witness:
  "HeaderMap_get [(''x-nighthawk-test-server-config'', ''{response_code: 429}'')]
      (TestServerConfig example_names) = [''{response_code: 429}'']
   \<and> holds_base [base_fields] time_tracking_config base_fields
   \<and> parse_example ''{response_code: 429}'' = Inr [[''response_code''] \<mapsto> 429]
   \<and> effective_value
        (computeEffectiveConfiguration example_names (mergeJsonConfig_spec parse_example)
           time_tracking_config
           [(''x-nighthawk-test-server-config'', ''{response_code: 429}'')] [base_fields])
        = Inr (base_fields ++ [[''response_code''] \<mapsto> 429])
   \<and> (base_fields ++ [[''response_code''] \<mapsto> 429]) [''response_code''] = Some 429
   \<and> (base_fields ++ [[''response_code''] \<mapsto> 429]) [''static_delay'', ''seconds''] = Some 1
   \<and> HeaderMap_get [(''x-nighthawk-test-server-config'', ''bad json'')]
        (TestServerConfig example_names) = [''bad json'']
   \<and> parse_example ''bad json'' = Inl ''Error merging json config''
   \<and> computeEffectiveConfiguration example_names (mergeJsonConfig_spec parse_example)
        time_tracking_config [(''x-nighthawk-test-server-config'', ''bad json'')] [base_fields]
        = (Inl (InvalidArgumentError ''Error merging json config''), [base_fields])"
proof -
  have h1: "HeaderMap_get [(''x-nighthawk-test-server-config'', ''{response_code: 429}'')]
      (TestServerConfig example_names) = [''{response_code: 429}'']"
    by (simp add: HeaderMap_get_def)
  have h2: "HeaderMap_get [(''x-nighthawk-test-server-config'', ''bad json'')]
        (TestServerConfig example_names) = [''bad json'']"
    by (simp add: HeaderMap_get_def)
  have hb: "holds_base [base_fields] time_tracking_config base_fields"
    by (rule time_tracking_config_holds)
  have p1: "parse_example ''{response_code: 429}'' = Inr [[''response_code''] \<mapsto> 429]"
    by simp
  have p2: "parse_example ''bad json'' = Inl ''Error merging json config''"
    by simp
  note a = single_override_merged [OF h1 hb, of parse_example "[[''response_code''] \<mapsto> 429]"
      "''none''"]
  note b = single_override_merged [OF h2 hb, of parse_example "[[''response_code''] \<mapsto> 429]"
      "''Error merging json config''"]
  have a1: "effective_value
        (computeEffectiveConfiguration example_names (mergeJsonConfig_spec parse_example)
           time_tracking_config
           [(''x-nighthawk-test-server-config'', ''{response_code: 429}'')] [base_fields])
        = Inr (base_fields ++ [[''response_code''] \<mapsto> 429])"
    using a p1 by (simp add: effective_value_def)
  have a2: "(base_fields ++ [[''response_code''] \<mapsto> 429]) [''response_code''] = Some 429"
    by simp
  have a3: "(base_fields ++ [[''response_code''] \<mapsto> 429]) [''static_delay'', ''seconds''] = Some 1"
    by simp
  have b1: "computeEffectiveConfiguration example_names (mergeJsonConfig_spec parse_example)
        time_tracking_config [(''x-nighthawk-test-server-config'', ''bad json'')] [base_fields]
        = (Inl (InvalidArgumentError ''Error merging json config''), [base_fields])"
    using b p2 by simp
  show ?thesis using h1 h2 hb p1 p2 a1 a2 a3 b1 by blast
qed

text \<open>
  C4: when the request carries two or more values of the override header, the call
  returns the duplicate-header error whatever the values are; the store is left as it was
  and the result does not depend on the merge function, so no value is parsed or merged
  and the first value does not win.
\<close>

theorem duplicate_override_rejected:
  assumes "2 \<le> length (HeaderMap_get headers (TestServerConfig names))"
  shows "computeEffectiveConfiguration names mergeJsonConfig this headers \<sigma>
           = (Inl (InvalidArgumentError
                ''Received multiple configuration headers in the request, expected only one.''), \<sigma>)"
  using assms by (simp add: computeEffectiveConfiguration_def)

theorem duplicate_override_rejected_witness:
  "2 \<le> length (HeaderMap_get duplicate_headers (TestServerConfig example_names))
   \<and> computeEffectiveConfiguration example_names replace_by_json time_tracking_config
        duplicate_headers [''base'']
        = (Inl (InvalidArgumentError
             ''Received multiple configuration headers in the request, expected only one.''),
           [''base''])"
proof -
  have h: "2 \<le> length (HeaderMap_get duplicate_headers (TestServerConfig example_names))"
    by (simp add: HeaderMap_get_def)
  show ?thesis
    using h duplicate_override_rejected [OF h, of replace_by_json time_tracking_config "[''base'']"]
    by simp
qed

text \<open>
  C10: a configuration object is constructed from a base configuration and then serves
  any sequence of requests. Whatever the requests' headers and whatever the merge function
  does to the configuration it is handed, the configuration object still holds the base
  configuration given to the constructor (every merge works on a copy), and a later
  request without an override resolves to that configuration.
\<close>

theorem base_configuration_never_mutated:
  assumes "FilterConfigurationBase_new proto_config filter_name \<sigma>0 = (this, \<sigma>)"
      and "HeaderMap_get later (TestServerConfig names) = []"
  shows "holds_base (serve names mergeJsonConfig this reqs \<sigma>) this proto_config
       \<and> serve names mergeJsonConfig this reqs \<sigma> ! m_server_config this = proto_config
       \<and> effective_value (computeEffectiveConfiguration names mergeJsonConfig this later
            (serve names mergeJsonConfig this reqs \<sigma>)) = Inr proto_config"
proof -
  from assms(1) have "holds_base \<sigma> this proto_config"
    by (rule FilterConfigurationBase_new_holds)
  then have h: "holds_base (serve names mergeJsonConfig this reqs \<sigma>) this proto_config"
    by (rule serve_frame)
  then have "serve names mergeJsonConfig this reqs \<sigma> ! m_server_config this = proto_config"
    by (simp add: holds_base_def)
  moreover have "effective_value (computeEffectiveConfiguration names mergeJsonConfig this later
            (serve names mergeJsonConfig this reqs \<sigma>)) = Inr proto_config"
    using assms(2) h
    by (simp add: computeEffectiveConfiguration_def effective_value_def holds_base_def)
  ultimately show ?thesis using h by simp
qed

theorem base_configuration_never_mutated_witness:
  "FilterConfigurationBase_new ''base'' ''time-tracking'' [] = (time_tracking_config, [''base''])
   \<and> HeaderMap_get [(''accept'', ''*/*'')] (TestServerConfig example_names) = []
   \<and> serve example_names replace_by_json time_tracking_config
        [[(''x-nighthawk-test-server-config'', ''{}'')], [], duplicate_headers] [''base'']
        ! m_server_config time_tracking_config = ''base''
   \<and> effective_value (computeEffectiveConfiguration example_names replace_by_json
        time_tracking_config [(''accept'', ''*/*'')]
        (serve example_names replace_by_json time_tracking_config
          [[(''x-nighthawk-test-server-config'', ''{}'')], [], duplicate_headers] [''base'']))
       = Inr ''base''"
proof -
  have h: "FilterConfigurationBase_new ''base'' ''time-tracking'' []
             = (time_tracking_config, [''base''])"
    by (simp add: FilterConfigurationBase_new_def make_shared_def)
  have g: "HeaderMap_get [(''accept'', ''*/*'')] (TestServerConfig example_names) = []"
    by (simp add: HeaderMap_get_def)
  note T = base_configuration_never_mutated [OF h g, of replace_by_json
        "[[(''x-nighthawk-test-server-config'', ''{}'')], [], duplicate_headers]"]
  show ?thesis
    using h g T [THEN conjunct2, THEN conjunct1] T [THEN conjunct2, THEN conjunct2]
    by blast
qed

section \<open>Error replies of the time tracking filter\<close>

text \<open>The configuration object of the examples is the one the constructor builds.\<close>

lemma time_tracking_config_constructed:
  "HttpTimeTrackingFilterConfig_new B [] = (time_tracking_config, [B])"
  by (simp add: HttpTimeTrackingFilterConfig_new_def FilterConfigurationBase_new_def
      make_shared_def)

lemma validateOrSendError_error:
  "validateOrSendError this (Inl status) decoder_callbacks =
     (True, decoder_callbacks @ [error_response (m_filter_name this) (message status)])"
  by (simp add: validateOrSendError_def sendLocalReply_def error_response_def)

lemma validateOrSendError_ok:
  "validateOrSendError this (Inr p) decoder_callbacks = (False, decoder_callbacks)"
  by (simp add: validateOrSendError_def)

lemma decodeData_not_end: "decodeData this False cb = (FilterDataStatus.Continue, cb)"
  by (simp add: decodeData_def)

lemma decodeData_end_error:
  "m_effective_config this = Inl status \<Longrightarrow>
   decodeData this True cb =
     (FilterDataStatus.StopIterationNoBuffer,
      cb @ [error_response (m_filter_name (m_config this)) (message status)])"
  by (simp add: decodeData_def validateOrSendError_error)

lemma decodeData_ok:
  "m_effective_config this = Inr p \<Longrightarrow>
   decodeData this end_stream cb = (FilterDataStatus.Continue, cb)"
  by (simp add: decodeData_def validateOrSendError_ok)

lemma decodeHeaders_not_end:
  "computeEffectiveConfiguration names mergeJsonConfig (m_config this) headers \<sigma> = (r, \<sigma>') \<Longrightarrow>
   decodeHeaders names mergeJsonConfig this headers False \<sigma> cb =
     (FilterHeadersStatus.Continue, this\<lparr>m_effective_config := r\<rparr>, \<sigma>', cb)"
  by (simp add: decodeHeaders_def Let_def)

lemma decodeHeaders_end_error:
  "computeEffectiveConfiguration names mergeJsonConfig (m_config this) headers \<sigma>
     = (Inl status, \<sigma>') \<Longrightarrow>
   decodeHeaders names mergeJsonConfig this headers True \<sigma> cb =
     (FilterHeadersStatus.StopIteration, this\<lparr>m_effective_config := Inl status\<rparr>, \<sigma>',
      cb @ [error_response (m_filter_name (m_config this)) (message status)])"
  by (simp add: decodeHeaders_def validateOrSendError_error Let_def)

lemma decodeHeaders_ok:
  "computeEffectiveConfiguration names mergeJsonConfig (m_config this) headers \<sigma>
     = (Inr p, \<sigma>') \<Longrightarrow>
   decodeHeaders names mergeJsonConfig this headers end_stream \<sigma> cb =
     (FilterHeadersStatus.Continue, this\<lparr>m_effective_config := Inr p\<rparr>, \<sigma>', cb)"
  by (simp add: decodeHeaders_def validateOrSendError_ok Let_def)

lemma decodeDataFrames_waiting:
  "decodeDataFrames this (replicate n False @ frames) cb =
     replicate n (FilterDataStatus.Continue, cb) @ decodeDataFrames this frames cb"
  by (induction n) (simp_all add: decodeData_not_end)

lemma decodeDataFrames_end_error:
  "m_effective_config this = Inl status \<Longrightarrow>
   decodeDataFrames this (True # frames) cb =
     [(FilterDataStatus.StopIterationNoBuffer,
       cb @ [error_response (m_filter_name (m_config this)) (message status)])]"
  by (simp add: decodeData_end_error)

lemma decodeDataFrames_ok:
  "m_effective_config this = Inr p \<Longrightarrow>
   decodeDataFrames this frames cb = map (\<lambda>end_stream. (FilterDataStatus.Continue, cb)) frames"
  by (induction frames) (simp_all add: decodeData_ok)

lemma all_False: "True \<notin> set ys \<Longrightarrow> ys = replicate (length ys) False"
  by (induction ys) auto

lemma decodeDataFrames_error_complete:
  assumes "m_effective_config this = Inl status" and "True \<in> set frames"
  shows "replies_after (decodeDataFrames this frames cb) cb =
           cb @ [error_response (m_filter_name (m_config this)) (message status)]"
proof -
  from assms(2) obtain ys zs where f: "frames = ys @ True # zs" and "True \<notin> set ys"
    by (auto dest: split_list_first)
  then have ys: "ys = replicate (length ys) False" by (simp add: all_False)
  have "decodeDataFrames this frames cb =
          replicate (length ys) (FilterDataStatus.Continue, cb) @ decodeDataFrames this (True # zs) cb"
    unfolding f by (subst ys) (rule decodeDataFrames_waiting)
  then show ?thesis
    using decodeDataFrames_end_error [OF assms(1), of zs cb] by (simp add: replies_after_def)
qed

lemma decodeRequest_error:
  assumes "computeEffectiveConfiguration names mergeJsonConfig (m_config this) headers \<sigma>
             = (Inl status, \<sigma>')"
      and "end_stream \<or> True \<in> set frames"
  shows "decodeRequest names mergeJsonConfig this headers end_stream frames \<sigma> cb =
           cb @ [error_response (m_filter_name (m_config this)) (message status)]"
proof (cases end_stream)
  case True
  then show ?thesis
    using decodeHeaders_end_error [OF assms(1), of cb] by (simp add: decodeRequest_def)
next
  case False
  with assms(2) have t: "True \<in> set frames" by simp
  let ?f = "this\<lparr>m_effective_config := Inl status\<rparr>"
  have e: "m_effective_config ?f = Inl status" by simp
  show ?thesis
    using False decodeHeaders_not_end [OF assms(1), of cb]
      decodeDataFrames_error_complete [OF e t, of cb]
    by (simp add: decodeRequest_def)
qed

lemma decodeRequest_ok:
  assumes "computeEffectiveConfiguration names mergeJsonConfig (m_config this) headers \<sigma>
             = (Inr p, \<sigma>')"
  shows "decodeRequest names mergeJsonConfig this headers end_stream frames \<sigma> cb = cb"
proof -
  let ?f = "this\<lparr>m_effective_config := Inr p\<rparr>"
  have e: "m_effective_config ?f = Inr p" by simp
  have "replies_after (decodeDataFrames ?f frames cb) cb = cb"
    by (cases frames rule: rev_cases) (simp_all add: decodeDataFrames_ok [OF e] replies_after_def)
  then show ?thesis
    using decodeHeaders_ok [OF assms, of end_stream cb] by (simp add: decodeRequest_def)
qed

lemma encodeHeaders_error:
  "m_effective_config this = Inl status \<Longrightarrow>
   encodeHeaders delimiter this \<rho> response_headers
     = (FilterHeadersStatus.Continue, response_headers)"
  by (simp add: encodeHeaders_def)

lemma delay_decodeHeaders_error:
  assumes "computeEffectiveConfiguration names mergeJsonConfig
             (FilterConfigurationBase.truncate config) headers \<sigma> = (Inl status, \<sigma>')"
  shows "HttpDynamicDelayDecoderFilter_decodeHeaders names mergeJsonConfig computeDelayMs config
           headers end_stream \<sigma> s decoder_callbacks delay_instructions =
         (Errored status, \<sigma>', s,
          (if end_stream
           then decoder_callbacks @ [error_response (m_filter_name config) (message status)]
           else decoder_callbacks),
          delay_instructions)"
  using assms
  by (simp add: HttpDynamicDelayDecoderFilter_decodeHeaders_def validateOrSendError_error
      FilterConfigurationBase.truncate_def)

lemma delay_decodeHeaders_ok:
  assumes "computeEffectiveConfiguration names mergeJsonConfig
             (FilterConfigurationBase.truncate config) headers \<sigma> = (Inr p, \<sigma>')"
  shows "HttpDynamicDelayDecoderFilter_decodeHeaders names mergeJsonConfig computeDelayMs config
           headers end_stream \<sigma> s decoder_callbacks delay_instructions =
         (DelayComputed (computeDelayMs (\<sigma>' ! p) (fst (approximateFilterInstances config s))),
          \<sigma>', snd (approximateFilterInstances config s), decoder_callbacks,
          maybeRequestFaultFilterDelay
            (computeDelayMs (\<sigma>' ! p) (fst (approximateFilterInstances config s)))
            delay_instructions)"
  using assms
  by (simp add: HttpDynamicDelayDecoderFilter_decodeHeaders_def Let_def split: prod.splits)

text \<open>
  C5, as the code has it: \<open>validateOrSendError\<close> answers a failed resolution with one
  local reply, the error response of the specification (status 500, body made of the
  filter name, the text \<open> didn't understand the request: \<close> and the message of the error),
  and reports that it did; for a resolved configuration it sends nothing. For a request
  whose resolution failed, the calls that do not carry the end of the stream return
  \<open>Continue\<close> without a reply, so the request goes on down the filter chain; when the end
  of the stream reaches the filter (with the headers or with a body frame) it sends
  exactly that one reply, and the call that sends it stops the iteration of the filter
  chain (\<open>StopIteration\<close> from \<open>decodeHeaders\<close>, \<open>StopIterationNoBuffer\<close> from \<open>decodeData\<close>,
  after which no further frame is taken); \<open>encodeHeaders\<close> adds nothing to the response
  of such a request. A request whose configuration was resolved gets \<open>Continue\<close> from every
  call and no reply. In the delay filter, the request headers of a request whose
  resolution failed leave the request errored: whatever the delay calculator is, no delay
  is computed, the concurrency is not read and nothing is handed to the delay-enactment
  collaborator, and the same one reply is sent when the headers end the stream; with a
  resolved configuration the delay is computed and handed on, and no reply is sent.
\<close>

theorem failed_resolution_answered_with_500:
  "validateOrSendError this (Inl status) decoder_callbacks =
     (True, decoder_callbacks @ [error_response (m_filter_name this) (message status)])
   \<and> validateOrSendError this (Inr p) decoder_callbacks = (False, decoder_callbacks)
   \<and> (computeEffectiveConfiguration names mergeJsonConfig (m_config f) headers \<sigma>
         = (Inl status, \<sigma>') \<longrightarrow>
        decodeHeaders names mergeJsonConfig f headers False \<sigma> decoder_callbacks =
            (FilterHeadersStatus.Continue, f\<lparr>m_effective_config := Inl status\<rparr>, \<sigma>',
             decoder_callbacks)
        \<and> decodeData (f\<lparr>m_effective_config := Inl status\<rparr>) False decoder_callbacks =
            (FilterDataStatus.Continue, decoder_callbacks)
        \<and> (end_stream \<or> True \<in> set frames \<longrightarrow>
           decodeRequest names mergeJsonConfig f headers end_stream frames \<sigma> decoder_callbacks =
             decoder_callbacks @ [error_response (m_filter_name (m_config f)) (message status)])
        \<and> decodeHeaders names mergeJsonConfig f headers True \<sigma> decoder_callbacks =
            (FilterHeadersStatus.StopIteration, f\<lparr>m_effective_config := Inl status\<rparr>, \<sigma>',
             decoder_callbacks @ [error_response (m_filter_name (m_config f)) (message status)])
        \<and> decodeDataFrames (f\<lparr>m_effective_config := Inl status\<rparr>) (True # frames)
              decoder_callbacks =
            [(FilterDataStatus.StopIterationNoBuffer,
              decoder_callbacks @ [error_response (m_filter_name (m_config f)) (message status)])]
        \<and> encodeHeaders delimiter (f\<lparr>m_effective_config := Inl status\<rparr>) \<rho> response_headers =
            (FilterHeadersStatus.Continue, response_headers))
   \<and> (computeEffectiveConfiguration names mergeJsonConfig (m_config f) headers \<sigma>
         = (Inr p, \<sigma>') \<longrightarrow>
        decodeRequest names mergeJsonConfig f headers end_stream frames \<sigma> decoder_callbacks =
          decoder_callbacks
        \<and> decodeHeaders names mergeJsonConfig f headers end_stream \<sigma> decoder_callbacks =
            (FilterHeadersStatus.Continue, f\<lparr>m_effective_config := Inr p\<rparr>, \<sigma>',
             decoder_callbacks)
        \<and> decodeDataFrames (f\<lparr>m_effective_config := Inr p\<rparr>) frames decoder_callbacks =
            map (\<lambda>end_stream. (FilterDataStatus.Continue, decoder_callbacks)) frames)
   \<and> (computeEffectiveConfiguration names mergeJsonConfig
          (FilterConfigurationBase.truncate config) headers \<sigma> = (Inl status, \<sigma>') \<longrightarrow>
        HttpDynamicDelayDecoderFilter_decodeHeaders names mergeJsonConfig computeDelayMs config
            headers end_stream \<sigma> s decoder_callbacks delay_instructions =
          (Errored status, \<sigma>', s,
           (if end_stream
            then decoder_callbacks @ [error_response (m_filter_name config) (message status)]
            else decoder_callbacks),
           delay_instructions))
   \<and> (computeEffectiveConfiguration names mergeJsonConfig
          (FilterConfigurationBase.truncate config) headers \<sigma> = (Inr p, \<sigma>') \<longrightarrow>
        HttpDynamicDelayDecoderFilter_decodeHeaders names mergeJsonConfig computeDelayMs config
            headers end_stream \<sigma> s decoder_callbacks delay_instructions =
          (DelayComputed (computeDelayMs (\<sigma>' ! p) (fst (approximateFilterInstances config s))),
           \<sigma>', snd (approximateFilterInstances config s), decoder_callbacks,
           maybeRequestFaultFilterDelay
             (computeDelayMs (\<sigma>' ! p) (fst (approximateFilterInstances config s)))
             delay_instructions))"
proof -
  have err: "m_effective_config (f\<lparr>m_effective_config := Inl status\<rparr>) = Inl status"
    and ok: "m_effective_config (f\<lparr>m_effective_config := Inr p\<rparr>) = Inr p"
    by simp_all
  show ?thesis
    using decodeDataFrames_end_error [OF err, of frames decoder_callbacks]
      encodeHeaders_error [OF err, of delimiter \<rho> response_headers]
      decodeDataFrames_ok [OF ok, of frames decoder_callbacks]
    by (simp add: validateOrSendError_error validateOrSendError_ok decodeHeaders_end_error
        decodeHeaders_not_end decodeData_not_end decodeHeaders_ok decodeRequest_error
        decodeRequest_ok delay_decodeHeaders_error delay_decodeHeaders_ok)
qed

theorem failed_resolution_answered_with_500_witness:
  "computeEffectiveConfiguration example_names replace_by_json (m_config fresh_filter)
      duplicate_headers [''base''] = (Inl (InvalidArgumentError duplicate_message), [''base''])
   \<and> (False \<or> True \<in> set [False, True])
   \<and> decodeRequest example_names replace_by_json fresh_filter duplicate_headers False
        [False, True] [''base''] []
       = [\<lparr>reply_code = 500,
           reply_body = ''time-tracking didn't understand the request: '' @ duplicate_message\<rparr>]
   \<and> decodeHeaders example_names replace_by_json fresh_filter duplicate_headers True [''base''] []
       = (FilterHeadersStatus.StopIteration,
          fresh_filter\<lparr>m_effective_config := Inl (InvalidArgumentError duplicate_message)\<rparr>,
          [''base''],
          [\<lparr>reply_code = 500,
            reply_body = ''time-tracking didn't understand the request: '' @ duplicate_message\<rparr>])
   \<and> computeEffectiveConfiguration example_names replace_by_json (m_config fresh_filter)
      [] [''base''] = (Inr 0, [''base''])
   \<and> decodeRequest example_names replace_by_json fresh_filter [] False [False, True] [''base''] []
       = []
   \<and> decodeHeaders example_names replace_by_json fresh_filter [] True [''base''] []
       = (FilterHeadersStatus.Continue, fresh_filter\<lparr>m_effective_config := Inr 0\<rparr>, [''base''], [])
   \<and> HttpDynamicDelayDecoderFilter_decodeHeaders example_names replace_by_json fixed_delay_250
        delay_config_a duplicate_headers True [''base''] (Some 3) [] []
       = (Errored (InvalidArgumentError duplicate_message), [''base''], Some 3,
          [\<lparr>reply_code = 500,
            reply_body = ''dynamic-delay didn't understand the request: '' @ duplicate_message\<rparr>],
          [])
   \<and> HttpDynamicDelayDecoderFilter_decodeHeaders example_names replace_by_json fixed_delay_250
        delay_config_a [] True [''base''] (Some 3) [] []
       = (DelayComputed (Some 250), [''base''], Some 3, [], [250])"
proof -
  have e: "computeEffectiveConfiguration example_names replace_by_json (m_config fresh_filter)
      duplicate_headers [''base''] = (Inl (InvalidArgumentError duplicate_message), [''base''])"
    using duplicate_headers_resolution [of replace_by_json "[''base'']"] by simp
  have k: "computeEffectiveConfiguration example_names replace_by_json (m_config fresh_filter)
      [] [''base''] = (Inr 0, [''base''])"
    using no_headers_resolution [of replace_by_json "[''base'']"] by simp
  have c: "False \<or> True \<in> set [False, True]" by simp
  have de: "computeEffectiveConfiguration example_names replace_by_json
      (FilterConfigurationBase.truncate delay_config_a) duplicate_headers [''base'']
      = (Inl (InvalidArgumentError duplicate_message), [''base''])"
    by (simp add: computeEffectiveConfiguration_def HeaderMap_get_def)
  have dk: "computeEffectiveConfiguration example_names replace_by_json
      (FilterConfigurationBase.truncate delay_config_a) [] [''base''] = (Inr 0, [''base''])"
    by (simp add: computeEffectiveConfiguration_def HeaderMap_get_def
        FilterConfigurationBase.truncate_def)
  note d = failed_resolution_answered_with_500 [where names = example_names
      and mergeJsonConfig = replace_by_json and config = delay_config_a
      and headers = duplicate_headers and \<sigma> = "[''base'']" and \<sigma>' = "[''base'']"
      and decoder_callbacks = "[]" and status = "InvalidArgumentError duplicate_message"
      and end_stream = True and computeDelayMs = fixed_delay_250 and s = "Some 3"
      and delay_instructions = "[]"]
  note d' = failed_resolution_answered_with_500 [where names = example_names
      and mergeJsonConfig = replace_by_json and config = delay_config_a
      and headers = "[]" and \<sigma> = "[''base'']" and \<sigma>' = "[''base'']"
      and decoder_callbacks = "[]" and p = 0
      and end_stream = True and computeDelayMs = fixed_delay_250 and s = "Some 3"
      and delay_instructions = "[]"]
  note D = d [THEN conjunct2, THEN conjunct2, THEN conjunct2, THEN conjunct2, THEN conjunct1,
      THEN mp, OF de]
  note D' = d' [THEN conjunct2, THEN conjunct2, THEN conjunct2, THEN conjunct2, THEN conjunct2,
      THEN mp, OF dk]
  have d1: "HttpDynamicDelayDecoderFilter_decodeHeaders example_names replace_by_json
        fixed_delay_250 delay_config_a duplicate_headers True [''base''] (Some 3) [] []
       = (Errored (InvalidArgumentError duplicate_message), [''base''], Some 3,
          [\<lparr>reply_code = 500,
            reply_body = ''dynamic-delay didn't understand the request: '' @ duplicate_message\<rparr>],
          [])"
    using D by (simp add: error_response_def)
  have d2: "HttpDynamicDelayDecoderFilter_decodeHeaders example_names replace_by_json
        fixed_delay_250 delay_config_a [] True [''base''] (Some 3) [] []
       = (DelayComputed (Some 250), [''base''], Some 3, [], [250])"
    using D' by (simp add: approximateFilterInstances_def instances_def
        maybeRequestFaultFilterDelay_def)
  note a = failed_resolution_answered_with_500 [where names = example_names
      and mergeJsonConfig = replace_by_json and f = fresh_filter and headers = duplicate_headers
      and \<sigma> = "[''base'']" and \<sigma>' = "[''base'']" and decoder_callbacks = "[]"
      and status = "InvalidArgumentError duplicate_message" and end_stream = False
      and frames = "[False, True]"]
  note b = failed_resolution_answered_with_500 [where names = example_names
      and mergeJsonConfig = replace_by_json and f = fresh_filter and headers = "[]"
      and \<sigma> = "[''base'']" and \<sigma>' = "[''base'']" and decoder_callbacks = "[]"
      and p = 0 and end_stream = False and frames = "[False, True]"]
  note b' = failed_resolution_answered_with_500 [where names = example_names
      and mergeJsonConfig = replace_by_json and f = fresh_filter and headers = "[]"
      and \<sigma> = "[''base'']" and \<sigma>' = "[''base'']" and decoder_callbacks = "[]"
      and p = 0 and end_stream = True]
  note A = a [THEN conjunct2, THEN conjunct2, THEN conjunct1, THEN mp, OF e]
  note B = b [THEN conjunct2, THEN conjunct2, THEN conjunct2, THEN conjunct1, THEN mp, OF k]
  note B' = b' [THEN conjunct2, THEN conjunct2, THEN conjunct2, THEN conjunct1, THEN mp, OF k]
  have a1: "decodeRequest example_names replace_by_json fresh_filter duplicate_headers False
        [False, True] [''base''] []
       = [\<lparr>reply_code = 500,
           reply_body = ''time-tracking didn't understand the request: '' @ duplicate_message\<rparr>]"
    using A [THEN conjunct2, THEN conjunct2, THEN conjunct1, THEN mp, OF c]
    by (simp add: error_response_def)
  have a2: "decodeHeaders example_names replace_by_json fresh_filter duplicate_headers True
       [''base''] []
       = (FilterHeadersStatus.StopIteration,
          fresh_filter\<lparr>m_effective_config := Inl (InvalidArgumentError duplicate_message)\<rparr>,
          [''base''],
          [\<lparr>reply_code = 500,
            reply_body = ''time-tracking didn't understand the request: '' @ duplicate_message\<rparr>])"
    using A [THEN conjunct2, THEN conjunct2, THEN conjunct2, THEN conjunct1]
    by (simp add: error_response_def)
  have b1: "decodeRequest example_names replace_by_json fresh_filter [] False [False, True]
       [''base''] [] = []"
    using B [THEN conjunct1] by simp
  have b2: "decodeHeaders example_names replace_by_json fresh_filter [] True [''base''] []
       = (FilterHeadersStatus.Continue, fresh_filter\<lparr>m_effective_config := Inr 0\<rparr>, [''base''], [])"
    using B' [THEN conjunct2, THEN conjunct1] by simp
  show ?thesis using e k c a1 a2 b1 b2 d1 d2 by blast
qed

text \<open>
  The claim as stated fails for a request whose resolution failed and which has a body.
  With two override headers and headers that do not end the stream, \<open>decodeHeaders\<close>
  returns \<open>Continue\<close> and sends nothing: the request is passed on, not suppressed. If
  the body frames that follow do not carry the end of the stream either, no reply is
  sent at all.
\<close>

theorem errored_request_with_body_continues:
  "computeEffectiveConfiguration example_names replace_by_json (m_config fresh_filter)
      duplicate_headers [''base''] = (Inl (InvalidArgumentError duplicate_message), [''base''])
   \<and> decodeHeaders example_names replace_by_json fresh_filter duplicate_headers False [''base''] []
       = (FilterHeadersStatus.Continue,
          fresh_filter\<lparr>m_effective_config := Inl (InvalidArgumentError duplicate_message)\<rparr>,
          [''base''], [])
   \<and> decodeRequest example_names replace_by_json fresh_filter duplicate_headers False
        [False, False] [''base''] [] = []"
proof -
  have e: "computeEffectiveConfiguration example_names replace_by_json (m_config fresh_filter)
      duplicate_headers [''base''] = (Inl (InvalidArgumentError duplicate_message), [''base''])"
    using duplicate_headers_resolution [of replace_by_json "[''base'']"] by simp
  have h: "decodeHeaders example_names replace_by_json fresh_filter duplicate_headers False
       [''base''] []
       = (FilterHeadersStatus.Continue,
          fresh_filter\<lparr>m_effective_config := Inl (InvalidArgumentError duplicate_message)\<rparr>,
          [''base''], [])"
    using decodeHeaders_not_end [OF e, of "[]"] by simp
  have r: "decodeRequest example_names replace_by_json fresh_filter duplicate_headers False
        [False, False] [''base''] [] = []"
    using h by (simp add: decodeRequest_def decodeData_not_end replies_after_def)
  show ?thesis using e h r by blast
qed



section \<open>The response-gap header\<close>

lemma digit_value_digit: "d < 10 \<Longrightarrow> digit_value (''0123456789'' ! d) = d"
proof -
  assume "d < 10"
  then have "d \<in> {0, 1, 2, 3, 4, 5, 6, 7, 8, 9}" by auto
  then show ?thesis by (auto simp: digit_value_def)
qed

lemma decimal_value_snoc: "decimal_value (s @ [c]) = 10 * decimal_value s + digit_value c"
  by (simp add: decimal_value_def)

lemma decimal_value_StrCat: "decimal_value (StrCat n) = n"
proof (induction n rule: StrCat.induct)
  case (1 n)
  show ?case
  proof (cases "n < 10")
    case True
    then show ?thesis
      using digit_value_digit [of n] by (subst StrCat.simps) (simp add: decimal_value_def)
  next
    case False
    with 1 have "decimal_value (StrCat (n div 10)) = n div 10" by simp
    with False show ?thesis
      using digit_value_digit [of "n mod 10"]
      by (subst StrCat.simps) (simp add: decimal_value_snoc)
  qed
qed

lemma digits_StrCat: "list_all is_digit (StrCat n)"
proof (induction n rule: StrCat.induct)
  case (1 n)
  have d: "is_digit (''0123456789'' ! k)" if "k < 10" for k
    unfolding is_digit_def using that by (intro nth_mem) simp
  show ?case
  proof (cases "n < 10")
    case True
    then show ?thesis using d [of n] by (subst StrCat.simps) simp
  next
    case False
    with 1 have "list_all is_digit (StrCat (n div 10))" by simp
    with False show ?thesis using d [of "n mod 10"] by (subst StrCat.simps) simp
  qed
qed

lemma StrCat_not_empty: "StrCat n \<noteq> []"
  by (subst StrCat.simps) simp

lemma appendCopy_absent:
  "HeaderMap_get headers key = [] \<Longrightarrow> appendCopy delimiter key v headers = headers @ [(key, v)]"
  by (simp add: appendCopy_def)

lemma appendToFirst_get:
  "HeaderMap_get headers key = old # later \<Longrightarrow>
   HeaderMap_get (appendToFirst key data separator headers) key
     = appendToHeader old data separator # later"
  by (induction headers) (auto simp: HeaderMap_get_def)

lemma appendToFirst_others:
  "filter (\<lambda>entry. fst entry \<noteq> key) (appendToFirst key data separator headers)
     = filter (\<lambda>entry. fst entry \<noteq> key) headers"
  by (induction headers) simp_all

lemma appendToFirst_names:
  "map fst (appendToFirst key data separator headers) = map fst headers"
  by (induction headers) simp_all

lemma appendCopy_present:
  assumes "HeaderMap_get headers key = old # later"
  shows "HeaderMap_get (appendCopy delimiter key v headers) key
           = appendToHeader old v (delimiter key) # later
       \<and> map fst (appendCopy delimiter key v headers) = map fst headers
       \<and> filter (\<lambda>entry. fst entry \<noteq> key) (appendCopy delimiter key v headers)
           = filter (\<lambda>entry. fst entry \<noteq> key) headers"
  using assms
  by (simp add: appendCopy_def appendToFirst_get appendToFirst_others appendToFirst_names)

lemma encodeHeaders_result:
  "encodeHeaders delimiter this \<sigma> response_headers =
     (FilterHeadersStatus.Continue,
      if response_gap_header_name this \<sigma> \<noteq> [] \<and> 0 < m_last_request_delta_ns this
      then appendCopy delimiter (LowerCaseString (response_gap_header_name this \<sigma>))
             (StrCat (unat (m_last_request_delta_ns this))) response_headers
      else response_headers)"
  by (simp add: encodeHeaders_def response_gap_header_name_def split: sum.splits)

text \<open>
  C7, as the code has it: \<open>encodeHeaders\<close> always continues. It calls \<open>appendCopy\<close> for
  the response-gap header exactly when the effective configuration names one (the name is
  not empty) and the gap measured before is greater than zero, and leaves the response
  headers as they were otherwise. The data it appends is the decimal text of the gap in
  nanoseconds: it consists of decimal digits, and read back as a decimal number it is the
  gap. When the response has no header of the (lower-cased) configured name, one entry
  with exactly that value is added at the end. When it has one already, no entry is
  added: the text is joined onto the value of the first such header, after the separator
  if that value is not empty, and the names and all other entries stay as they were.
\<close>

theorem response_gap_header_emission:
  "fst (encodeHeaders delimiter this \<sigma> response_headers) = FilterHeadersStatus.Continue
   \<and> (\<not> (response_gap_header_name this \<sigma> \<noteq> [] \<and> 0 < m_last_request_delta_ns this) \<longrightarrow>
        snd (encodeHeaders delimiter this \<sigma> response_headers) = response_headers)
   \<and> (response_gap_header_name this \<sigma> \<noteq> [] \<and> 0 < m_last_request_delta_ns this \<longrightarrow>
        (HeaderMap_get response_headers (LowerCaseString (response_gap_header_name this \<sigma>)) = [] \<longrightarrow>
           snd (encodeHeaders delimiter this \<sigma> response_headers) =
             response_headers @
               [(LowerCaseString (response_gap_header_name this \<sigma>),
                 StrCat (unat (m_last_request_delta_ns this)))])
        \<and> (HeaderMap_get response_headers (LowerCaseString (response_gap_header_name this \<sigma>))
             = old # later \<longrightarrow>
           HeaderMap_get (snd (encodeHeaders delimiter this \<sigma> response_headers))
               (LowerCaseString (response_gap_header_name this \<sigma>))
             = (if old = [] then StrCat (unat (m_last_request_delta_ns this))
                else old @ delimiter (LowerCaseString (response_gap_header_name this \<sigma>))
                       @ StrCat (unat (m_last_request_delta_ns this))) # later
           \<and> map fst (snd (encodeHeaders delimiter this \<sigma> response_headers))
               = map fst response_headers
           \<and> filter (\<lambda>entry. fst entry \<noteq> LowerCaseString (response_gap_header_name this \<sigma>))
                 (snd (encodeHeaders delimiter this \<sigma> response_headers))
               = filter (\<lambda>entry. fst entry \<noteq> LowerCaseString (response_gap_header_name this \<sigma>))
                   response_headers))
   \<and> list_all is_digit (StrCat (unat (m_last_request_delta_ns this)))
   \<and> decimal_value (StrCat (unat (m_last_request_delta_ns this)))
        = unat (m_last_request_delta_ns this)"
proof -
  let ?key = "LowerCaseString (response_gap_header_name this \<sigma>)"
  let ?v = "StrCat (unat (m_last_request_delta_ns this))"
  have j: "appendToHeader old ?v (delimiter ?key)
             = (if old = [] then ?v else old @ delimiter ?key @ ?v)"
    by (simp add: appendToHeader_def StrCat_not_empty)
  have present: "HeaderMap_get response_headers ?key = old # later \<Longrightarrow>
      HeaderMap_get (appendCopy delimiter ?key ?v response_headers) ?key
           = (if old = [] then ?v else old @ delimiter ?key @ ?v) # later
       \<and> map fst (appendCopy delimiter ?key ?v response_headers) = map fst response_headers
       \<and> filter (\<lambda>entry. fst entry \<noteq> ?key) (appendCopy delimiter ?key ?v response_headers)
           = filter (\<lambda>entry. fst entry \<noteq> ?key) response_headers"
    using appendCopy_present [of response_headers ?key old later delimiter ?v]
    by (simp only: j)
  show ?thesis
    using present
    by (simp add: encodeHeaders_result appendCopy_absent digits_StrCat decimal_value_StrCat)
qed

theorem response_gap_header_emission_witness:
  "snd (encodeHeaders comma (fresh_filter\<lparr>m_last_request_delta_ns := 5000000\<rparr>)
          [\<lparr>emit_previous_request_delta_in_response_header = ''x-gap-ns''\<rparr>] [])
      = [(''x-gap-ns'', ''5000000'')]
   \<and> snd (encodeHeaders comma (fresh_filter\<lparr>m_last_request_delta_ns := 0\<rparr>)
          [\<lparr>emit_previous_request_delta_in_response_header = ''x-gap-ns''\<rparr>] [])
      = []
   \<and> snd (encodeHeaders comma (fresh_filter\<lparr>m_last_request_delta_ns := 5000000\<rparr>)
          [\<lparr>emit_previous_request_delta_in_response_header = ''''\<rparr>] [])
      = []
   \<and> snd (encodeHeaders comma (fresh_filter\<lparr>m_last_request_delta_ns := 18446744073709551615\<rparr>)
          [\<lparr>emit_previous_request_delta_in_response_header = ''X-Gap-Ns''\<rparr>]
          [(''server'', ''envoy'')])
      = [(''server'', ''envoy''), (''x-gap-ns'', ''18446744073709551615'')]
   \<and> HeaderMap_get [(''x-gap-ns'', ''7''), (''server'', ''envoy'')] ''x-gap-ns'' = [''7'']
   \<and> HeaderMap_get
        (snd (encodeHeaders comma (fresh_filter\<lparr>m_last_request_delta_ns := 5\<rparr>)
          [\<lparr>emit_previous_request_delta_in_response_header = ''x-gap-ns''\<rparr>]
          [(''x-gap-ns'', ''7''), (''server'', ''envoy'')])) ''x-gap-ns''
      = [''7,5'']"
proof -
  let ?cfg = "[\<lparr>emit_previous_request_delta_in_response_header = ''x-gap-ns''\<rparr>]"
  note n = response_gap_header_name_def LowerCaseString_def tolower_def HeaderMap_get_def
  have name: "LowerCaseString (response_gap_header_name
                 (fresh_filter\<lparr>m_last_request_delta_ns := 5\<rparr>) ?cfg) = ''x-gap-ns''"
    by (simp add: n)
  have cond: "response_gap_header_name (fresh_filter\<lparr>m_last_request_delta_ns := 5\<rparr>) ?cfg \<noteq> []
              \<and> 0 < m_last_request_delta_ns (fresh_filter\<lparr>m_last_request_delta_ns := 5\<rparr>)"
    by (simp add: n)
  have g: "HeaderMap_get [(''x-gap-ns'', ''7''), (''server'', ''envoy'')] ''x-gap-ns'' = [''7'']"
    by (simp add: HeaderMap_get_def)
  have w1: "snd (encodeHeaders comma (fresh_filter\<lparr>m_last_request_delta_ns := 5000000\<rparr>) ?cfg [])
      = [(''x-gap-ns'', ''5000000'')]"
    using response_gap_header_emission
      [of comma "fresh_filter\<lparr>m_last_request_delta_ns := 5000000\<rparr>" ?cfg "[]" "[]" "[]"]
    by (simp add: n StrCat.simps)
  have w2: "snd (encodeHeaders comma (fresh_filter\<lparr>m_last_request_delta_ns := 0\<rparr>) ?cfg []) = []"
    using response_gap_header_emission
      [of comma "fresh_filter\<lparr>m_last_request_delta_ns := 0\<rparr>" ?cfg "[]" "[]" "[]"]
    by (simp add: n)
  have w3: "snd (encodeHeaders comma (fresh_filter\<lparr>m_last_request_delta_ns := 5000000\<rparr>)
          [\<lparr>emit_previous_request_delta_in_response_header = ''''\<rparr>] []) = []"
    using response_gap_header_emission
      [of comma "fresh_filter\<lparr>m_last_request_delta_ns := 5000000\<rparr>"
          "[\<lparr>emit_previous_request_delta_in_response_header = ''''\<rparr>]" "[]" "[]" "[]"]
    by (simp add: n)
  have w4: "snd (encodeHeaders comma
          (fresh_filter\<lparr>m_last_request_delta_ns := 18446744073709551615\<rparr>)
          [\<lparr>emit_previous_request_delta_in_response_header = ''X-Gap-Ns''\<rparr>]
          [(''server'', ''envoy'')])
      = [(''server'', ''envoy''), (''x-gap-ns'', ''18446744073709551615'')]"
    using response_gap_header_emission
      [of comma "fresh_filter\<lparr>m_last_request_delta_ns := 18446744073709551615\<rparr>"
          "[\<lparr>emit_previous_request_delta_in_response_header = ''X-Gap-Ns''\<rparr>]"
          "[(''server'', ''envoy'')]" "[]" "[]"]
    by (simp add: n StrCat.simps)
  have g': "HeaderMap_get [(''x-gap-ns'', ''7''), (''server'', ''envoy'')]
              (LowerCaseString (response_gap_header_name
                 (fresh_filter\<lparr>m_last_request_delta_ns := 5\<rparr>) ?cfg)) = [''7'']"
    by (simp add: n)
  note t = response_gap_header_emission
      [of comma "fresh_filter\<lparr>m_last_request_delta_ns := 5\<rparr>" ?cfg
          "[(''x-gap-ns'', ''7''), (''server'', ''envoy'')]" "''7''" "[]"]
  note t' = t [THEN conjunct2, THEN conjunct2, THEN conjunct1, THEN mp, OF cond,
      THEN conjunct2, THEN mp, OF g', THEN conjunct1]
  have w5: "HeaderMap_get
        (snd (encodeHeaders comma (fresh_filter\<lparr>m_last_request_delta_ns := 5\<rparr>) ?cfg
          [(''x-gap-ns'', ''7''), (''server'', ''envoy'')])) ''x-gap-ns''
      = [''7,5'']"
    using t' by (simp add: n StrCat.simps)
  show ?thesis using w1 w2 w3 w4 g w5 by blast
qed

text \<open>
  The claim as stated fails when the response already carries a header of the configured
  name: with \<open>x-gap-ns: 7\<close> in the response and a gap of 5 ns no entry is appended, and the
  value of the header becomes \<open>7,5\<close>, which is not the decimal text \<open>5\<close> of the gap.
\<close>

theorem response_gap_value_joined_onto_existing_header:
  "snd (encodeHeaders comma (fresh_filter\<lparr>m_last_request_delta_ns := 5\<rparr>)
          [\<lparr>emit_previous_request_delta_in_response_header = ''x-gap-ns''\<rparr>]
          [(''x-gap-ns'', ''7'')])
      = [(''x-gap-ns'', ''7,5'')]
   \<and> StrCat (unat (m_last_request_delta_ns (fresh_filter\<lparr>m_last_request_delta_ns := 5\<rparr>))) = ''5''
   \<and> ''7,5'' \<noteq> ''5''"
  by (simp add: encodeHeaders_def appendCopy_def appendToHeader_def HeaderMap_get_def
      LowerCaseString_def tolower_def StrCat.simps)

section \<open>The count of active filter instances\<close>

lemma increment_value:
  "fst (instances (incrementFilterInstanceCount this s)) = fst (instances s) + 1"
  by (simp add: incrementFilterInstanceCount_def instances_def split: option.splits)

lemma decrement_value:
  "fst (instances (decrementFilterInstanceCount this s)) = fst (instances s) - 1"
  by (simp add: decrementFilterInstanceCount_def instances_def split: option.splits)

lemma run_ops_value:
  "fst (instances (run_ops ops s)) =
     fst (instances s) + word_of_nat (increments ops) - word_of_nat (decrements ops)"
proof (induction ops s rule: run_ops.induct)
  case (1 s)
  then show ?case by (simp add: increments_def decrements_def)
next
  case (2 this ops s)
  then show ?case by (simp add: increments_def decrements_def increment_value)
next
  case (3 this ops s)
  then show ?case by (simp add: increments_def decrements_def decrement_value)
qed

text \<open>
  C6, as the code has it: the count is one value of the process. Incrementing,
  decrementing and reading do not depend on the configuration object they are called on,
  and an increment or decrement made through one configuration object is seen by a read
  through any other: all requests of all configuration objects read and update the same
  counter.
\<close>

theorem instance_count_shared_by_all_configurations:
  "incrementFilterInstanceCount a s = incrementFilterInstanceCount b s
   \<and> decrementFilterInstanceCount a s = decrementFilterInstanceCount b s
   \<and> approximateFilterInstances a s = approximateFilterInstances b s
   \<and> fst (approximateFilterInstances b (incrementFilterInstanceCount a s))
        = fst (approximateFilterInstances b s) + 1
   \<and> fst (approximateFilterInstances b (decrementFilterInstanceCount a s))
        = fst (approximateFilterInstances b s) - 1"
proof -
  have "incrementFilterInstanceCount a s = incrementFilterInstanceCount b s"
    and "decrementFilterInstanceCount a s = decrementFilterInstanceCount b s"
    by (simp_all add: incrementFilterInstanceCount_def decrementFilterInstanceCount_def)
  moreover have "approximateFilterInstances a s = approximateFilterInstances b s"
    by (simp add: approximateFilterInstances_def)
  moreover have "fst (approximateFilterInstances b (incrementFilterInstanceCount a s))
        = fst (approximateFilterInstances b s) + 1"
    by (simp add: approximateFilterInstances_def increment_value)
  moreover have "fst (approximateFilterInstances b (decrementFilterInstanceCount a s))
        = fst (approximateFilterInstances b s) - 1"
    by (simp add: approximateFilterInstances_def decrement_value)
  ultimately show ?thesis by simp
qed

text \<open>
  Two distinct configuration objects do not have counters of their own: before any
  request the second one reads 0, and after one increment through the first one the
  second one reads 1.
\<close>

theorem instance_count_not_per_configuration:
  "delay_config_a \<noteq> delay_config_b
   \<and> fst (approximateFilterInstances delay_config_b None) = 0
   \<and> fst (approximateFilterInstances delay_config_b
            (incrementFilterInstanceCount delay_config_a None)) = 1"
  by (simp add: approximateFilterInstances_def incrementFilterInstanceCount_def instances_def)

text \<open>
  C9: starting from a count of 0, any sequence of atomic steps with as many increments
  as decrements, in any order and through any configuration objects, leaves the count at
  0. At every point of the sequence the value read is a 64-bit unsigned number, so never
  negative: it is the number of increments minus the number of decrements so far, modulo
  \<open>2 ^ 64\<close>.
\<close>

theorem balanced_operations_return_to_zero:
  assumes "increments ops = decrements ops" and "s = None \<or> s = Some 0"
  shows "fst (approximateFilterInstances this (run_ops ops s)) = 0
       \<and> (\<forall>k. 0 \<le> uint (fst (approximateFilterInstances this (run_ops (take k ops) s)))
              \<and> uint (fst (approximateFilterInstances this (run_ops (take k ops) s)))
                  = (int (increments (take k ops)) - int (decrements (take k ops))) mod 2 ^ 64)"
proof -
  from assms(2) have z: "fst (instances s) = 0"
    by (auto simp: instances_def)
  have final: "fst (approximateFilterInstances this (run_ops ops s)) = 0"
    using assms(1) z by (simp add: approximateFilterInstances_def run_ops_value)
  have obs: "uint (fst (approximateFilterInstances this (run_ops (take k ops) s)))
                  = (int (increments (take k ops)) - int (decrements (take k ops))) mod 2 ^ 64" for k
  proof -
    have "fst (approximateFilterInstances this (run_ops (take k ops) s)) =
          word_of_nat (increments (take k ops)) - word_of_nat (decrements (take k ops))"
      using z by (simp add: approximateFilterInstances_def run_ops_value)
    also have "\<dots> = word_of_int (int (increments (take k ops)) - int (decrements (take k ops)))"
      by simp
    finally show ?thesis by (simp only: uint_word_of_int take_bit_eq_mod len_of_numeral_defs) simp
  qed
  show ?thesis using final obs by simp
qed

theorem balanced_operations_return_to_zero_witness:
  "increments [(delay_config_a, Increment), (delay_config_b, Increment),
               (delay_config_a, Decrement), (delay_config_b, Decrement)]
    = decrements [(delay_config_a, Increment), (delay_config_b, Increment),
               (delay_config_a, Decrement), (delay_config_b, Decrement)]
   \<and> fst (approximateFilterInstances delay_config_a
        (run_ops [(delay_config_a, Increment), (delay_config_b, Increment),
               (delay_config_a, Decrement), (delay_config_b, Decrement)] None)) = 0
   \<and> uint (fst (approximateFilterInstances delay_config_a
        (run_ops (take 2 [(delay_config_a, Increment), (delay_config_b, Increment),
               (delay_config_a, Decrement), (delay_config_b, Decrement)]) None))) = 2"
proof -
  let ?ops = "[(delay_config_a, Increment), (delay_config_b, Increment),
               (delay_config_a, Decrement), (delay_config_b, Decrement)]"
  have h: "increments ?ops = decrements ?ops"
    by (simp add: increments_def decrements_def)
  have n: "(None :: statics) = None \<or> (None :: statics) = Some 0" by simp
  have t: "int (increments (take 2 ?ops)) - int (decrements (take 2 ?ops)) = 2"
    by (simp add: increments_def decrements_def)
  note T = balanced_operations_return_to_zero [OF h n, of delay_config_a]
  have f: "fst (approximateFilterInstances delay_config_a (run_ops ?ops None)) = 0"
    using T by (rule conjunct1)
  have g: "uint (fst (approximateFilterInstances delay_config_a (run_ops (take 2 ?ops) None)))
             = (int (increments (take 2 ?ops)) - int (decrements (take 2 ?ops))) mod 2 ^ 64"
    using T [THEN conjunct2, THEN spec, of 2] by (rule conjunct2)
  have g2: "uint (fst (approximateFilterInstances delay_config_a (run_ops (take 2 ?ops) None))) = 2"
    unfolding g t by simp
  show ?thesis using h f g2 by blast
qed

section \<open>The linear delay\<close>

subsection \<open>Rounding to a double\<close>

lemma round_half_even_of_int: "round_half_even (of_int i) = i"
  by (simp add: round_half_even_def)

lemma round_half_even_error: "\<bar>of_int (round_half_even z) - z\<bar> \<le> 1 / 2"
proof -
  have "of_int \<lfloor>z\<rfloor> \<le> z" and "z < of_int \<lfloor>z\<rfloor> + 1" by linarith+
  then show ?thesis
    by (auto simp: round_half_even_def Let_def abs_le_iff)
qed

lemma round_half_even_nonneg: "0 \<le> z \<Longrightarrow> 0 \<le> round_half_even z"
proof -
  assume "0 \<le> z"
  then have "0 \<le> \<lfloor>z\<rfloor>" by simp
  then show ?thesis by (simp add: round_half_even_def Let_def)
qed

lemma round_to_double_minus: "round_to_double (- x) = - round_to_double x"
  by (simp add: round_to_double_def Let_def)

lemma round_to_double_nonneg: "0 \<le> x \<Longrightarrow> 0 \<le> round_to_double x"
proof -
  assume x: "0 \<le> x"
  have "0 \<le> round_half_even (\<bar>x\<bar> / 2 powi (ilog2 \<bar>x\<bar> - 52))"
    by (rule round_half_even_nonneg) simp
  then show ?thesis using x by (simp add: round_to_double_def Let_def sgn_if)
qed

text \<open>A number with at most 53 significant bits at its own exponent is a double.\<close>

lemma round_to_double_fixed:
  assumes "\<bar>x\<bar> / 2 powi (ilog2 \<bar>x\<bar> - 52) = of_int i"
  shows "round_to_double x = x"
proof (cases "x = 0")
  case True
  then show ?thesis by (simp add: round_to_double_def)
next
  case False
  let ?p = "(2::real) powi (ilog2 \<bar>x\<bar> - 52)"
  have p: "?p \<noteq> 0" by simp
  have "round_to_double x = sgn x * (of_int i * ?p)"
    using False assms by (simp add: round_to_double_def Let_def round_half_even_of_int)
  also have "of_int i * ?p = \<bar>x\<bar>"
    using assms p by (simp add: field_simps)
  finally show ?thesis by (simp add: sgn_mult_abs)
qed

text \<open>Rounding moves a number by at most half a unit in the last place.\<close>

lemma round_to_double_error:
  assumes "x \<noteq> 0"
  shows "\<bar>round_to_double x - x\<bar> \<le> 2 powi (ilog2 \<bar>x\<bar> - 52) / 2"
proof -
  let ?p = "(2::real) powi (ilog2 \<bar>x\<bar> - 52)"
  let ?m = "round_half_even (\<bar>x\<bar> / ?p)"
  have p: "0 < ?p" by simp
  have x: "x = sgn x * (\<bar>x\<bar> / ?p) * ?p" using p by (simp add: sgn_mult_abs)
  have "round_to_double x = sgn x * of_int ?m * ?p"
    using assms by (simp add: round_to_double_def Let_def)
  then have "round_to_double x - x = sgn x * of_int ?m * ?p - sgn x * (\<bar>x\<bar> / ?p) * ?p"
    using x by simp
  then have "round_to_double x - x = sgn x * (of_int ?m - \<bar>x\<bar> / ?p) * ?p"
    by (simp only: right_diff_distrib left_diff_distrib)
  then have "\<bar>round_to_double x - x\<bar> = \<bar>of_int ?m - \<bar>x\<bar> / ?p\<bar> * ?p"
    using assms p by (simp add: abs_mult abs_sgn_eq del: of_int_diff)
  also have "\<dots> \<le> (1 / 2) * ?p"
    using round_half_even_error [of "\<bar>x\<bar> / ?p"] p by (intro mult_right_mono) simp_all
  finally show ?thesis by simp
qed

lemma two_powi_nonpos: "e \<le> 0 \<Longrightarrow> (2::real) powi e = 1 / 2 ^ nat (- e)"
  using power_int_minus_divide [of "2::real" "- e"] by (simp add: power_int_nonneg_exp)

text \<open>\<open>ilog2\<close> is the binary exponent: \<open>2 ^ ilog2 x \<le> x < 2 ^ (ilog2 x + 1)\<close>.\<close>

lemma ilog2_bounds:
  assumes "0 < x"
  shows "2 powi (ilog2 x) \<le> x \<and> x < 2 powi (ilog2 x + 1)"
proof (cases "1 \<le> x")
  case True
  let ?a = "\<lfloor>x\<rfloor>"
  have a: "0 < ?a" using True by simp
  have b: "1 \<le> bitlen ?a" using a by (simp add: bitlen_ge_iff_power)
  from bitlen_bounds [OF a]
  have lo: "2 ^ nat (bitlen ?a - 1) \<le> ?a" and hi: "?a < 2 ^ nat (bitlen ?a)" by simp_all
  have "(2::real) powi (bitlen ?a - 1) = of_int (2 ^ nat (bitlen ?a - 1))"
    using b by (simp add: power_int_nonneg_exp)
  also have "\<dots> \<le> of_int ?a" using lo by (simp only: of_int_le_iff)
  also have "\<dots> \<le> x" by simp
  finally have l: "2 powi (bitlen ?a - 1) \<le> x" .
  have "?a + 1 \<le> 2 ^ nat (bitlen ?a)" using hi by simp
  then have "(of_int (?a + 1) :: real) \<le> of_int (2 ^ nat (bitlen ?a))"
    by (simp only: of_int_le_iff)
  moreover have "x < of_int (?a + 1)" by simp
  ultimately have "x < of_int (2 ^ nat (bitlen ?a))" by linarith
  also have "\<dots> = 2 powi (bitlen ?a - 1 + 1)"
    using b by (simp add: power_int_nonneg_exp)
  finally have h: "x < 2 powi (bitlen ?a - 1 + 1)" .
  show ?thesis using True l h by (simp add: ilog2_def)
next
  case False
  let ?c = "\<lceil>1 / x\<rceil>"
  let ?a = "?c - 1"
  let ?j = "bitlen ?a"
  have x1: "x < 1" using False by simp
  have inv: "1 < 1 / x" using assms x1 by simp
  then have c2: "2 \<le> ?c" by (simp add: le_ceiling_iff)
  then have a: "0 < ?a" by simp
  have j1: "1 \<le> ?j" using a by (simp add: bitlen_ge_iff_power)
  from bitlen_bounds [OF a]
  have lo: "2 ^ nat (?j - 1) \<le> ?a" and hi: "?a < 2 ^ nat ?j" by simp_all
  have "?c \<le> 2 ^ nat ?j" using hi by simp
  then have "(of_int ?c :: real) \<le> of_int (2 ^ nat ?j)" by (simp only: of_int_le_iff)
  moreover have "1 / x \<le> of_int ?c" by simp
  moreover have "(of_int (2 ^ nat ?j) :: real) = 2 ^ nat ?j" by simp
  ultimately have "1 / x \<le> 2 ^ nat ?j" by linarith
  then have "1 \<le> 2 ^ nat ?j * x" using assms by (simp add: field_simps)
  then have "1 / 2 ^ nat ?j \<le> x" by (simp add: field_simps)
  moreover have "(2::real) powi (- ?j) = 1 / 2 ^ nat ?j"
    using j1 two_powi_nonpos [of "- ?j"] by simp
  ultimately have l: "2 powi (- ?j) \<le> x" by simp
  have "(of_int (2 ^ nat (?j - 1)) :: real) \<le> of_int ?a" using lo by (simp only: of_int_le_iff)
  moreover have "of_int ?a < 1 / x" using ceiling_correct [of "1 / x"] by simp
  moreover have "(of_int (2 ^ nat (?j - 1)) :: real) = 2 ^ nat (?j - 1)" by simp
  ultimately have "2 ^ nat (?j - 1) < 1 / x" by linarith
  then have "2 ^ nat (?j - 1) * x < 1" using assms by (simp add: field_simps)
  then have "x < 1 / 2 ^ nat (?j - 1)" by (simp add: field_simps)
  moreover have "(2::real) powi (- ?j + 1) = 1 / 2 ^ nat (?j - 1)"
    using j1 two_powi_nonpos [of "- ?j + 1"] by simp
  ultimately have h: "x < 2 powi (- ?j + 1)" by simp
  show ?thesis using False l h by (simp add: ilog2_def)
qed

lemma ilog2_of_int: "1 \<le> a \<Longrightarrow> ilog2 (of_int a) = bitlen a - 1"
  by (simp add: ilog2_def)

text \<open>Integers of magnitude up to \<open>2 ^ 53\<close> convert to double without loss.\<close>

lemma double_of_int64_exact:
  assumes "\<bar>n\<bar> \<le> 2 ^ 53"
  shows "double_of_int64 n = of_int n"
proof (cases "n = 0")
  case True
  then show ?thesis by (simp add: double_of_int64_def round_to_double_def)
next
  case False
  let ?a = "\<bar>n\<bar>"
  have a1: "1 \<le> ?a" using False by simp
  have abs_eq: "\<bar>of_int n :: real\<bar> = of_int ?a" by simp
  have L: "ilog2 \<bar>of_int n\<bar> = bitlen ?a - 1"
    unfolding abs_eq using a1 by (rule ilog2_of_int)
  have b2: "bitlen ?a \<le> 54"
    using assms by (simp add: bitlen_le_iff_power)
  have "\<exists>i. \<bar>of_int n :: real\<bar> / 2 powi (ilog2 \<bar>of_int n\<bar> - 52) = of_int i"
  proof (cases "bitlen ?a \<le> 53")
    case True
    then have e: "bitlen ?a - 1 - 52 \<le> 0" by simp
    have "\<bar>of_int n :: real\<bar> / 2 powi (bitlen ?a - 1 - 52)
            = of_int (?a * 2 ^ nat (- (bitlen ?a - 1 - 52)))"
      unfolding abs_eq two_powi_nonpos [OF e] by simp
    then show ?thesis unfolding L by blast
  next
    case False
    with b2 have b: "bitlen ?a = 54" by simp
    then have "(54::int) \<le> bitlen ?a" by simp
    then have "2 ^ 53 \<le> ?a" by (simp add: bitlen_ge_iff_power)
    with assms have a: "?a = 2 ^ 53" by simp
    have "\<bar>of_int n :: real\<bar> / 2 powi (bitlen ?a - 1 - 52) = of_int (2 ^ 52)"
      unfolding abs_eq b unfolding a by simp
    then show ?thesis unfolding L by blast
  qed
  then obtain i where "\<bar>of_int n :: real\<bar> / 2 powi (ilog2 \<bar>of_int n\<bar> - 52) = of_int i" ..
  then show ?thesis
    unfolding double_of_int64_def by (rule round_to_double_fixed)
qed

lemma ilog2_small:
  assumes "0 < x" and "x < 2 ^ 34"
  shows "ilog2 x \<le> 33"
proof (cases "1 \<le> x")
  case True
  have "\<lfloor>x\<rfloor> < 2 ^ 34" using assms(2) by (simp add: floor_less_iff)
  then have "bitlen \<lfloor>x\<rfloor> \<le> 34" by (simp add: bitlen_le_iff_power)
  with True show ?thesis by (simp add: ilog2_def)
next
  case False
  have "0 \<le> bitlen (\<lceil>1 / x\<rceil> - 1)" by (rule bitlen_nonneg)
  with False show ?thesis by (simp add: ilog2_def)
qed

text \<open>Below \<open>2 ^ 34\<close> a double is within \<open>2 ^ -20\<close> of the number it rounds.\<close>

lemma round_to_double_near:
  assumes "0 < x" and "x < 2 ^ 34"
  shows "\<bar>round_to_double x - x\<bar> \<le> 1 / 1048576"
proof -
  have "ilog2 \<bar>x\<bar> - 52 \<le> - 19" using ilog2_small [OF assms] assms(1) by simp
  then have "(2::real) powi (ilog2 \<bar>x\<bar> - 52) \<le> 2 powi (- 19)"
    by (intro power_int_increasing) simp_all
  moreover have "\<bar>round_to_double x - x\<bar> \<le> 2 powi (ilog2 \<bar>x\<bar> - 52) / 2"
    using assms(1) by (intro round_to_double_error) simp
  ultimately have "\<bar>round_to_double x - x\<bar> \<le> 2 powi (- 19) / 2" by linarith
  also have "(2::real) powi (- 19) / 2 = 1 / 1048576" by (simp add: power_int_minus_divide)
  finally show ?thesis .
qed

lemma round_to_double_half_integer:
  assumes "0 < j" and "j < 2 ^ 35"
  shows "round_to_double (of_int j / 2) = of_int j / 2"
proof -
  let ?x = "of_int j / 2 :: real"
  have pos: "0 < ?x" using assms(1) by simp
  have lt: "?x < 2 ^ 34" using assms(2) by simp
  have e: "ilog2 \<bar>?x\<bar> - 52 \<le> - 19" using ilog2_small [OF pos lt] pos by simp
  then have e0: "ilog2 \<bar>?x\<bar> - 52 \<le> 0" by simp
  obtain m where m: "nat (- (ilog2 \<bar>?x\<bar> - 52)) = Suc m"
    using e by (cases "nat (- (ilog2 \<bar>?x\<bar> - 52))") simp_all
  have "\<bar>?x\<bar> / 2 powi (ilog2 \<bar>?x\<bar> - 52) = of_int (j * 2 ^ m)"
    unfolding two_powi_nonpos [OF e0] m using pos by simp
  then show ?thesis by (rule round_to_double_fixed)
qed

subsection \<open>From nanoseconds to the nearest millisecond\<close>

text \<open>
  A positive count of at most \<open>2 ^ 53\<close> nanoseconds: the quotient by \<open>10 ^ 6\<close> is a multiple
  of \<open>1 / 10 ^ 6\<close>, so it is either a tie (a half-integer, which is a double) or at least
  \<open>1 / 10 ^ 6\<close> away from every tie, more than the rounding of the division can move it.
\<close>

lemma nearest_millisecond_pos:
  assumes "0 < n" and "n \<le> 2 ^ 53"
  shows "\<lfloor>round_to_double (of_int n / 1000000) + 1 / 2\<rfloor> = (n + 500000) div 1000000"
proof -
  let ?x = "of_int n / 1000000 :: real"
  let ?k = "(n + 500000) div 1000000"
  let ?y = "round_to_double ?x"
  have pos: "0 < ?x" using assms(1) by simp
  have lt: "?x < 2 ^ 34" using assms(2) by simp
  have near: "\<bar>?y - ?x\<bar> \<le> 1 / 1048576" by (rule round_to_double_near [OF pos lt])
  have dm: "?k * 1000000 + (n + 500000) mod 1000000 = n + 500000"
    by (rule div_mult_mod_eq)
  have m0: "0 \<le> (n + 500000) mod 1000000" by simp
  have m1: "(n + 500000) mod 1000000 < 1000000" by simp
  have lo: "?k * 1000000 - 500000 \<le> n" using dm m0 by linarith
  have hi: "n \<le> ?k * 1000000 + 499999" using dm m1 by linarith
  have "of_int n \<le> (of_int (?k * 1000000 + 499999) :: real)"
    using hi by (simp only: of_int_le_iff)
  then have xhi: "?x \<le> of_int ?k + 1 / 2 - 1 / 1000000" by (simp add: field_simps)
  have yhi: "?y \<le> ?x + 1 / 1048576" and ylo: "?x - 1 / 1048576 \<le> ?y"
    using near by (simp_all only: abs_le_iff) linarith+
  have upper: "?y + 1 / 2 < of_int ?k + 1" using yhi xhi by linarith
  have lower: "of_int ?k \<le> ?y + 1 / 2"
  proof (cases "n = ?k * 1000000 - 500000")
    case True
    have kpos: "0 < 2 * ?k - 1" using assms(1) True by linarith
    have klt: "2 * ?k - 1 < 2 ^ 35" using assms(2) True by simp
    have "of_int n = (of_int (?k * 1000000 - 500000) :: real)" using True by simp
    then have xeq: "?x = of_int (2 * ?k - 1) / 2" by (simp add: field_simps)
    have "?y = of_int (2 * ?k - 1) / 2"
      unfolding xeq by (rule round_to_double_half_integer [OF kpos klt])
    then show ?thesis by simp
  next
    case False
    with lo have "?k * 1000000 - 499999 \<le> n" by linarith
    then have "(of_int (?k * 1000000 - 499999) :: real) \<le> of_int n"
      by (simp only: of_int_le_iff)
    then have "of_int ?k - 1 / 2 + 1 / 1000000 \<le> ?x" by (simp add: field_simps)
    with ylo show ?thesis by linarith
  qed
  show ?thesis using lower upper by (simp add: floor_unique)
qed

lemma round_half_away_pos:
  "0 \<le> n \<Longrightarrow> round_half_away (of_int n / 1000000) = (n + 500000) div 1000000"
proof -
  assume n: "0 \<le> n"
  have "(of_int n / 1000000 + 1 / 2 :: real) = of_int (n + 500000) / of_int 1000000" by simp
  then have "\<lfloor>of_int n / 1000000 + 1 / 2 :: real\<rfloor> = (n + 500000) div 1000000"
    by (simp only: floor_divide_of_int_eq)
  then show ?thesis using n by (simp add: round_half_away_def)
qed

lemma millis_pos:
  assumes "0 < n" and "n \<le> 2 ^ 53"
  shows "int64_of_double (std_round (double_div (double_of_int64 n) 1000000))
           = (n + 500000) div 1000000"
proof -
  let ?y = "round_to_double (of_int n / 1000000)"
  have d: "double_of_int64 n = of_int n"
    using assms by (intro double_of_int64_exact) simp
  have y0: "0 \<le> ?y" using assms(1) by (intro round_to_double_nonneg) simp
  have k: "\<lfloor>?y + 1 / 2\<rfloor> = (n + 500000) div 1000000"
    by (rule nearest_millisecond_pos [OF assms])
  have k0: "0 \<le> (n + 500000) div 1000000" using assms(1) by simp
  show ?thesis
    using y0 k k0 by (simp add: d double_div_def std_round_def int64_of_double_def)
qed

lemma millis_neg:
  assumes "0 < n" and "n \<le> 2 ^ 53"
  shows "int64_of_double (std_round (double_div (double_of_int64 (- n)) 1000000))
           = - ((n + 500000) div 1000000)"
proof -
  let ?y = "round_to_double (of_int n / 1000000)"
  have d: "double_of_int64 (- n) = - of_int n"
    using assms double_of_int64_exact [of "- n"] by simp
  have q: "double_div (double_of_int64 (- n)) 1000000 = - ?y"
    unfolding d double_div_def using round_to_double_minus [of "of_int n / 1000000"] by simp
  have y0: "0 \<le> ?y" using assms(1) by (intro round_to_double_nonneg) simp
  have k: "\<lfloor>?y + 1 / 2\<rfloor> = (n + 500000) div 1000000"
    by (rule nearest_millisecond_pos [OF assms])
  have k0: "0 \<le> (n + 500000) div 1000000" using assms(1) by simp
  show ?thesis
  proof (cases "?y = 0")
    case True
    with k have "(n + 500000) div 1000000 = 0" by simp
    with True show ?thesis by (simp add: q std_round_def int64_of_double_def)
  next
    case False
    with y0 have "\<not> 0 \<le> - ?y" by simp
    then have "std_round (- ?y) = - of_int ((n + 500000) div 1000000)"
      using k by (simp add: std_round_def)
    then show ?thesis using k0 by (simp add: q int64_of_double_def)
  qed
qed

lemma late_tie_pipeline:
  "int64_of_double (std_round (double_div (double_of_int64 9007199255499999) 1000000))
     = 9007199256"
  by code_simp

text \<open>
  C1, as the code has it: when the exact sum \<open>minimal_delay + concurrency * delay_factor\<close>
  is at most \<open>2 ^ 53\<close> nanoseconds in magnitude (about 104 days), the function returns that
  sum divided by \<open>10 ^ 6\<close> and rounded to the nearest integer, ties half away from zero; in
  particular 100 ms, 10 ms and a concurrency of 5 give 150.
\<close>

theorem linear_delay_rounds_to_nearest_millisecond:
  assumes "\<bar>minimal_delay + uint concurrency * delay_factor\<bar> \<le> 2 ^ 53"
  shows "computeConcurrencyBasedLinearDelayMs concurrency minimal_delay delay_factor
           = round_half_away (of_int (minimal_delay + uint concurrency * delay_factor) / 1000000)"
proof -
  let ?t = "minimal_delay + uint concurrency * delay_factor"
  have c: "computeConcurrencyBasedLinearDelayMs concurrency minimal_delay delay_factor
             = int64_of_double (std_round (double_div (double_of_int64 ?t) 1000000))"
    by (simp add: computeConcurrencyBasedLinearDelayMs_def DurationToNanoseconds_def
        Duration_times_def)
  consider "?t = 0" | "0 < ?t" | "?t < 0" by linarith
  then show ?thesis
  proof cases
    case 1
    then show ?thesis
      unfolding c
      by (simp add: double_of_int64_def double_div_def round_to_double_def std_round_def
          int64_of_double_def round_half_away_def)
  next
    case 2
    with assms have le: "?t \<le> 2 ^ 53" by simp
    show ?thesis
      unfolding c using millis_pos [OF 2 le] round_half_away_pos [of ?t] 2 by simp
  next
    case 3
    define s where "s = - ?t"
    have s: "0 < s" "s \<le> 2 ^ 53" "?t = - s" using 3 assms by (simp_all add: s_def)
    have "round_half_away (of_int (- s) / 1000000) = - round_half_away (of_int s / 1000000)"
      using s(1) by (simp add: round_half_away_def)
    then show ?thesis
      unfolding c s(3) using millis_neg [OF s(1) s(2)] round_half_away_pos [of s] s(1) by simp
  qed
qed

theorem linear_delay_rounds_to_nearest_millisecond_witness:
  "\<bar>MillisecondsToDuration 100 + uint (5 :: 64 word) * MillisecondsToDuration 10\<bar> \<le> 2 ^ 53
   \<and> computeConcurrencyBasedLinearDelayMs 5 (MillisecondsToDuration 100)
        (MillisecondsToDuration 10) = 150
   \<and> \<bar>1000000 + uint (1 :: 64 word) * 500000\<bar> \<le> (2 :: int) ^ 53
   \<and> computeConcurrencyBasedLinearDelayMs 1 1000000 500000 = 2
   \<and> \<bar>- 1500000 + uint (3 :: 64 word) * 0\<bar> \<le> (2 :: int) ^ 53
   \<and> computeConcurrencyBasedLinearDelayMs 3 (- 1500000) 0 = - 2"
  using linear_delay_rounds_to_nearest_millisecond
          [of "MillisecondsToDuration 100" 5 "MillisecondsToDuration 10"]
        linear_delay_rounds_to_nearest_millisecond [of 1000000 1 500000]
        linear_delay_rounds_to_nearest_millisecond [of "- 1500000" 3 0]
  by (simp add: round_half_away_def MillisecondsToDuration_def)

text \<open>
  Beyond that magnitude the claim fails. For a minimal delay of 9007199255499999 ns (a
  little over 104 days) and no concurrency the exact quotient is 9007199255.499999, whose
  nearest integer is 9007199255; the conversion to double rounds the count to
  9007199255500000, the quotient becomes the tie 9007199255.5 and the function returns
  9007199256.
\<close>

theorem linear_delay_inexact_beyond_double_precision:
  "computeConcurrencyBasedLinearDelayMs 0 9007199255499999 0 = 9007199256
   \<and> round_half_away (of_int (9007199255499999 + uint (0 :: 64 word) * 0) / 1000000)
        = 9007199255"
  by (simp add: computeConcurrencyBasedLinearDelayMs_def DurationToNanoseconds_def
      Duration_times_def late_tie_pipeline round_half_away_def)

end
